theory Spec2Isabelle
  imports Complex_Main "HOL-Library.Monad_Syntax"
begin

section \<open>Tensors\<close>

text \<open>
  The interpolator of \<^verbatim>\<open>theano_graph_pro.py\<close> computes on dense tensors of floats.
  Floats are read as reals. A coordinate matrix (shape \<open>n \<times> 3\<close>) is a list of points, a
  vector is a list, and a general matrix carries its shape, so that the run-time shape
  checks of the elementwise operations and of \<^verbatim>\<open>set_subtensor\<close> can be written out:
  a computation that raises there has the value \<open>None\<close>.
\<close>

type_synonym point = "real \<times> real \<times> real"

record matrix =
  shape0 :: nat
  shape1 :: nat
  elems :: "nat \<Rightarrow> nat \<Rightarrow> real"

text \<open>Column \<open>k\<close> of a coordinate matrix: \<^verbatim>\<open>x[:, k]\<close>.\<close>

fun coord :: "nat \<Rightarrow> point \<Rightarrow> real" where
  "coord 0 (x, y, z) = x"
| "coord (Suc 0) (x, y, z) = y"
| "coord k (x, y, z) = z"

definition same_shape :: "matrix \<Rightarrow> matrix \<Rightarrow> bool" where
  "same_shape A B = (shape0 A = shape0 B \<and> shape1 A = shape1 B)"

text \<open>
  Elementwise operations on two matrices none of whose dimensions is declared
  broadcastable: the shapes have to agree at run time.
\<close>

definition elemwise :: "(real \<Rightarrow> real \<Rightarrow> real) \<Rightarrow> matrix \<Rightarrow> matrix \<Rightarrow> matrix option" where
  "elemwise f A B =
     (if same_shape A B
      then Some \<lparr>shape0 = shape0 A, shape1 = shape1 A,
                 elems = (\<lambda>i j. f (elems A i j) (elems B i j))\<rparr>
      else None)"

definition map_matrix :: "(real \<Rightarrow> real) \<Rightarrow> matrix \<Rightarrow> matrix" where
  "map_matrix f A = \<lparr>shape0 = shape0 A, shape1 = shape1 A, elems = (\<lambda>i j. f (elems A i j))\<rparr>"

definition transpose_matrix :: "matrix \<Rightarrow> matrix" where
  "transpose_matrix A = \<lparr>shape0 = shape1 A, shape1 = shape0 A, elems = (\<lambda>i j. elems A j i)\<rparr>"

definition zeros :: "nat \<Rightarrow> nat \<Rightarrow> matrix" where
  "zeros r c = \<lparr>shape0 = r, shape1 = c, elems = (\<lambda>i j. 0)\<rparr>"

text \<open>\<^verbatim>\<open>A + T.eye(A.shape[0]) * v\<close> for a square \<open>A\<close>; the shapes have to agree.\<close>

definition add_eye :: "matrix \<Rightarrow> real \<Rightarrow> matrix option" where
  "add_eye A v =
     elemwise (+) A \<lparr>shape0 = shape0 A, shape1 = shape0 A,
                      elems = (\<lambda>i j. (if i = j then 1 else 0) * v)\<rparr>"

text \<open>
  Slices \<^verbatim>\<open>A[a:b]\<close> and \<^verbatim>\<open>A[:, a:b]\<close> with bounds that are not negative: both bounds are
  clipped to the length of the axis.
\<close>

definition slice_rows :: "nat \<Rightarrow> nat \<Rightarrow> matrix \<Rightarrow> matrix" where
  "slice_rows a b A =
     \<lparr>shape0 = min b (shape0 A) - min a (shape0 A), shape1 = shape1 A,
      elems = (\<lambda>i j. elems A (min a (shape0 A) + i) j)\<rparr>"

definition slice_cols :: "nat \<Rightarrow> nat \<Rightarrow> matrix \<Rightarrow> matrix" where
  "slice_cols a b A =
     \<lparr>shape0 = shape0 A, shape1 = min b (shape1 A) - min a (shape1 A),
      elems = (\<lambda>i j. elems A i (min a (shape1 A) + j))\<rparr>"

text \<open>
  \<^verbatim>\<open>T.set_subtensor(A[r0:r1, c0:c1], V)\<close>. The assignment follows numpy: \<open>V\<close> is broadcast
  to the shape of the slice along every axis where it has length 1, and the assignment
  raises when another length differs.
\<close>

definition set_subtensor :: "matrix \<Rightarrow> nat \<Rightarrow> nat \<Rightarrow> nat \<Rightarrow> nat \<Rightarrow> matrix \<Rightarrow> matrix option" where
  "set_subtensor A r0 r1 c0 c1 V =
     (let rs = min r0 (shape0 A); re = min r1 (shape0 A);
          cs = min c0 (shape1 A); ce = min c1 (shape1 A)
      in if (shape0 V = re - rs \<or> shape0 V = 1) \<and> (shape1 V = ce - cs \<or> shape1 V = 1)
         then Some \<lparr>shape0 = shape0 A, shape1 = shape1 A,
                    elems = (\<lambda>i j. if rs \<le> i \<and> i < re \<and> cs \<le> j \<and> j < ce
                                     then elems V (if shape0 V = 1 then 0 else i - rs)
                                                  (if shape1 V = 1 then 0 else j - cs)
                                     else elems A i j)\<rparr>
         else None)"

text \<open>\<^verbatim>\<open>T.set_subtensor(A[r0:r1, c0:c1], v)\<close> for a scalar \<open>v\<close>.\<close>

definition fill_subtensor :: "matrix \<Rightarrow> nat \<Rightarrow> nat \<Rightarrow> nat \<Rightarrow> nat \<Rightarrow> real \<Rightarrow> matrix" where
  "fill_subtensor A r0 r1 c0 c1 v =
     \<lparr>shape0 = shape0 A, shape1 = shape1 A,
      elems = (\<lambda>i j. if min r0 (shape0 A) \<le> i \<and> i < min r1 (shape0 A) \<and>
                          min c0 (shape1 A) \<le> j \<and> j < min c1 (shape1 A)
                       then v else elems A i j)\<rparr>"

text \<open>
  \<^verbatim>\<open>T.vertical_stack\<close> of blocks that have the same number of columns by construction
  (every use in this program stacks three blocks built from the same two point sets).
\<close>

fun vertical_stack :: "matrix list \<Rightarrow> matrix" where
  "vertical_stack [] = zeros 0 0"
| "vertical_stack [A] = A"
| "vertical_stack (A # As) =
     (let B = vertical_stack As
      in \<lparr>shape0 = shape0 A + shape0 B, shape1 = shape1 A,
          elems = (\<lambda>i j. if i < shape0 A then elems A i j else elems B (i - shape0 A) j)\<rparr>)"

text \<open>\<^verbatim>\<open>T.tile(A, k)\<close> of a matrix: \<open>k\<close> copies side by side.\<close>

definition tile_cols :: "matrix \<Rightarrow> nat \<Rightarrow> matrix" where
  "tile_cols A k = \<lparr>shape0 = shape0 A, shape1 = k * shape1 A,
                     elems = (\<lambda>i j. elems A i (j mod shape1 A))\<rparr>"

text \<open>\<^verbatim>\<open>T.tile(x, (k, 1))\<close> of a coordinate matrix: \<open>k\<close> copies one under the other.\<close>

definition tile_rows :: "point list \<Rightarrow> nat \<Rightarrow> point list" where
  "tile_rows xs k = concat (replicate k xs)"

text \<open>\<^verbatim>\<open>T.sum(A, axis=0)\<close>.\<close>

definition sum_axis0 :: "matrix \<Rightarrow> real list" where
  "sum_axis0 A = map (\<lambda>j. sum_list (map (\<lambda>i. elems A i j) [0..<shape0 A])) [0..<shape1 A]"

text \<open>Elementwise sum of two vectors: the lengths have to agree.\<close>

definition add_vec :: "real list \<Rightarrow> real list \<Rightarrow> real list option" where
  "add_vec u v = (if length u = length v then Some (map2 (+) u v) else None)"

section \<open>The interpolator's state\<close>

text \<open>
  The fields of \<^verbatim>\<open>TheanoGraphPro\<close> that the kriging, the evaluation and the segmentation
  read. The per-series fields (\<open>dips_position\<close>, \<open>ref_layer_points\<close>, \<open>rest_layer_points\<close>,
  the fault drift) are the slices \<^verbatim>\<open>compute_a_series\<close> assigns.
\<close>

record graph =
  a_T :: real
  c_o_T :: real
  nugget_effect_grad_T :: real
  nugget_effect_scalar_T :: real
  n_universal_eq_T_op :: nat
  i_reescale :: real
  gi_reescale :: real
  number_of_points_per_surface_T :: "nat list"
  npf_op :: "nat list"
  surface_points_all :: "point list"
  dips_position :: "point list"
  ref_layer_points_all :: "point list"
  rest_layer_points_all :: "point list"
  ref_layer_points :: "point list"
  rest_layer_points :: "point list"
  fault_matrix :: matrix
  fault_drift_at_surface_points_rest :: matrix
  fault_drift_at_surface_points_ref :: matrix
  inf_factor :: "real list"

definition n_dimensions :: nat where
  "n_dimensions = 3"

definition dips_position_tiled :: "graph \<Rightarrow> point list" where
  "dips_position_tiled g = tile_rows (dips_position g) n_dimensions"

text \<open>\<^verbatim>\<open>surface_points_all.shape[0] - number_of_points_per_surface_T.shape[0]\<close>.\<close>

definition len_points :: "graph \<Rightarrow> int" where
  "len_points g = int (length (surface_points_all g)) - int (length (number_of_points_per_surface_T g))"

section \<open>Geometry\<close>

text \<open>\<^verbatim>\<open>T.cumsum\<close> of a vector.\<close>

fun cumsum_from :: "nat \<Rightarrow> nat list \<Rightarrow> nat list" where
  "cumsum_from acc [] = []"
| "cumsum_from acc (x # xs) = (acc + x) # cumsum_from (acc + x) xs"

definition cumsum :: "nat list \<Rightarrow> nat list" where
  "cumsum xs = cumsum_from 0 xs"

text \<open>\<^verbatim>\<open>x[idx]\<close> for a vector of indices: an index out of range raises.\<close>

definition take_indices :: "'a list \<Rightarrow> nat list \<Rightarrow> 'a list option" where
  "take_indices xs idx = (if list_all (\<lambda>i. i < length xs) idx then Some (map (nth xs) idx) else None)"

text \<open>\<^verbatim>\<open>T.set_subtensor(x[idx], v)\<close> for a vector of indices and a scalar \<open>v\<close>.\<close>

definition set_indices :: "'a list \<Rightarrow> nat list \<Rightarrow> 'a \<Rightarrow> 'a list option" where
  "set_indices xs idx v =
     (if list_all (\<lambda>i. i < length xs) idx then Some (fold (\<lambda>i ys. ys[i := v]) idx xs) else None)"

text \<open>
  \<^verbatim>\<open>T.repeat(x, repeats, axis=0)\<close> for a vector of counts: numpy broadcasts a single count
  to every row and raises when the lengths differ otherwise.
\<close>

definition repeat_rows :: "'a list \<Rightarrow> nat list \<Rightarrow> 'a list option" where
  "repeat_rows xs reps =
     (if length reps = length xs then Some (concat (map2 (\<lambda>x n. replicate n x) xs reps))
      else if length reps = 1 then Some (concat (map (replicate (hd reps)) xs))
      else None)"

text \<open>\<^verbatim>\<open>T.nonzero(mask)[0]\<close>.\<close>

definition nonzero :: "int list \<Rightarrow> nat list" where
  "nonzero m = filter (\<lambda>i. m ! i \<noteq> 0) [0..<length m]"

text \<open>
  \<^verbatim>\<open>set_rest_ref_matrix\<close>: \<open>number_of_points_per_surface\<close> holds, for every surface, the
  number of its points after the first one. The result is
  \<^verbatim>\<open>[ref_points, rest_points, rest_mask, T.nonzero(rest_mask)[0]]\<close>.
\<close>

definition set_rest_ref_matrix ::
  "point list \<Rightarrow> nat list \<Rightarrow> (point list \<times> point list \<times> int list \<times> nat list) option" where
  "set_rest_ref_matrix surface_points number_of_points_per_surface =
     do {
       let ref_positions = cumsum (0 # map (\<lambda>n. n + 1) (butlast number_of_points_per_surface));
       firsts \<leftarrow> take_indices surface_points ref_positions;
       ref_points \<leftarrow> repeat_rows firsts number_of_points_per_surface;
       rest_mask \<leftarrow> set_indices (replicate (length surface_points) 1) ref_positions 0;
       rest_points \<leftarrow> take_indices surface_points (nonzero rest_mask);
       Some (ref_points, rest_points, rest_mask, nonzero rest_mask)
     }"

text \<open>
  \<^verbatim>\<open>squared_euclidean_distances\<close>: despite its name, the matrix of the distances, the
  square root of the squared distance clamped from below at \<open>1e-12\<close>.
\<close>

definition sq_sum :: "point \<Rightarrow> real" where
  "sq_sum p = (coord 0 p) ^ 2 + (coord 1 p) ^ 2 + (coord 2 p) ^ 2"

definition dot :: "point \<Rightarrow> point \<Rightarrow> real" where
  "dot p q = coord 0 p * coord 0 q + coord 1 p * coord 1 q + coord 2 p * coord 2 q"

definition sed_entry :: "point \<Rightarrow> point \<Rightarrow> real" where
  "sed_entry p q = sqrt (max (sq_sum p + sq_sum q - 2 * dot p q) (1 / 10 ^ 12))"

definition squared_euclidean_distances :: "point list \<Rightarrow> point list \<Rightarrow> matrix" where
  "squared_euclidean_distances x_1 x_2 =
     \<lparr>shape0 = length x_1, shape1 = length x_2,
      elems = (\<lambda>i j. sed_entry (x_1 ! i) (x_2 ! j))\<rparr>"

text \<open>\<^verbatim>\<open>matrices_shapes\<close>.\<close>

definition length_of_CG :: "graph \<Rightarrow> nat" where
  "length_of_CG g = length (dips_position_tiled g)"

definition length_of_CGI :: "graph \<Rightarrow> nat" where
  "length_of_CGI g = length (rest_layer_points g)"

definition length_of_U_I :: "graph \<Rightarrow> nat" where
  "length_of_U_I g = n_universal_eq_T_op g"

definition length_of_faults :: "graph \<Rightarrow> nat" where
  "length_of_faults g = shape0 (fault_matrix g)"

definition length_of_C :: "graph \<Rightarrow> nat" where
  "length_of_C g = length_of_CG g + length_of_CGI g + length_of_U_I g + length_of_faults g"

section \<open>Kriging\<close>

text \<open>
  The three expressions in the distance \<open>d\<close> that the kernels are written with: the
  polynomial of the interface covariance, the ``first derivative'' factor and the
  ``second derivative'' factor. The comparison \<^verbatim>\<open>(d < a_T)\<close> multiplies as 0 or 1.
\<close>

definition spline :: "real \<Rightarrow> real \<Rightarrow> real" where
  "spline a d =
     1 - 7 * (d / a) ^ 2 + 35 / 4 * (d / a) ^ 3 - 7 / 2 * (d / a) ^ 5 + 3 / 4 * (d / a) ^ 7"

definition first_derivative :: "real \<Rightarrow> real \<Rightarrow> real" where
  "first_derivative a d =
     (- 14 / a ^ 2) + 105 / 4 * d / a ^ 3 - 35 / 2 * d ^ 3 / a ^ 5 + 21 / 4 * d ^ 5 / a ^ 7"

definition second_derivative :: "real \<Rightarrow> real \<Rightarrow> real \<Rightarrow> real" where
  "second_derivative c_o a d =
     c_o * 7 * (9 * d ^ 5 - 20 * a ^ 2 * d ^ 3 + 15 * a ^ 4 * d - 4 * a ^ 5) / (2 * a ^ 7)"

text \<open>One term \<^verbatim>\<open>(sed < a_T) * (1 - 7 * (sed / a_T) ** 2 + ...)\<close> of \<^verbatim>\<open>cov_surface_points\<close>.\<close>

definition cov_surface_points_term :: "real \<Rightarrow> real \<Rightarrow> real" where
  "cov_surface_points_term a d = of_bool (d < a) * spline a d"

definition cov_surface_points :: "graph \<Rightarrow> matrix option" where
  "cov_surface_points g =
     do {
       let sed_rest_rest = squared_euclidean_distances (rest_layer_points g) (rest_layer_points g);
       let sed_ref_rest = squared_euclidean_distances (ref_layer_points g) (rest_layer_points g);
       let sed_rest_ref = squared_euclidean_distances (rest_layer_points g) (ref_layer_points g);
       let sed_ref_ref = squared_euclidean_distances (ref_layer_points g) (ref_layer_points g);
       t1 \<leftarrow> elemwise (-) (map_matrix (cov_surface_points_term (a_T g)) sed_rest_rest)
                          (map_matrix (cov_surface_points_term (a_T g)) sed_ref_rest);
       t2 \<leftarrow> elemwise (-) t1 (map_matrix (cov_surface_points_term (a_T g)) sed_rest_ref);
       t3 \<leftarrow> elemwise (+) t2 (map_matrix (cov_surface_points_term (a_T g)) sed_ref_ref);
       add_eye (map_matrix (\<lambda>t. c_o_T g * i_reescale g * t) t3) (2 * nugget_effect_scalar_T g)
     }"

text \<open>
  The entry of \<^verbatim>\<open>C_G\<close> before the nugget: \<open>hu\<close>, \<open>hv\<close>, \<open>p\<close> and \<open>d\<close> are the entries of
  \<^verbatim>\<open>h_u\<close>, \<^verbatim>\<open>h_v\<close>, \<^verbatim>\<open>perpendicularity_matrix\<close> and \<^verbatim>\<open>sed_dips_dips\<close>.
\<close>

definition cov_gradients_term :: "real \<Rightarrow> real \<Rightarrow> real \<Rightarrow> real \<Rightarrow> real \<Rightarrow> real \<Rightarrow> real" where
  "cov_gradients_term c_o a hu hv p d =
     (if d = 0 then 0
      else (hu * hv / d ^ 2) *
             ((of_bool (d < a) * (- c_o * first_derivative a d)) +
              of_bool (d < a) * second_derivative c_o a d) -
           (p * of_bool (d < a) * c_o * first_derivative a d))"

text \<open>\<^verbatim>\<open>xs[:, k] - ys[:, k].reshape((ys.shape[0], 1))\<close>.\<close>

definition coord_differences :: "nat \<Rightarrow> point list \<Rightarrow> point list \<Rightarrow> matrix" where
  "coord_differences k xs ys =
     \<lparr>shape0 = length ys, shape1 = length xs,
      elems = (\<lambda>i j. coord k (xs ! j) - coord k (ys ! i))\<rparr>"

definition h_u :: "graph \<Rightarrow> matrix" where
  "h_u g =
     vertical_stack
       [tile_cols (coord_differences 0 (dips_position g) (dips_position g)) n_dimensions,
        tile_cols (coord_differences 1 (dips_position g) (dips_position g)) n_dimensions,
        tile_cols (coord_differences 2 (dips_position g) (dips_position g)) n_dimensions]"

definition perpendicularity_matrix :: "graph \<Rightarrow> matrix" where
  "perpendicularity_matrix g =
     (let n = length (dips_position g);
          sed_dips_dips = squared_euclidean_distances (dips_position_tiled g) (dips_position_tiled g);
          p0 = map_matrix (\<lambda>_. 0) sed_dips_dips;
          p1 = fill_subtensor p0 0 n 0 n 1;
          p2 = fill_subtensor p1 n (n * 2) n (n * 2) 1
      in fill_subtensor p2 (n * 2) (n * 3) (n * 2) (n * 3) 1)"

definition cov_gradients :: "graph \<Rightarrow> matrix option" where
  "cov_gradients g =
     (let sed_dips_dips = squared_euclidean_distances (dips_position_tiled g) (dips_position_tiled g);
          h_v = transpose_matrix (h_u g)
      in if same_shape (h_u g) h_v \<and> same_shape (h_u g) sed_dips_dips
         then add_eye
                \<lparr>shape0 = shape0 sed_dips_dips, shape1 = shape1 sed_dips_dips,
                 elems = (\<lambda>i j. cov_gradients_term (c_o_T g) (a_T g) (elems (h_u g) i j)
                                   (elems h_v i j) (elems (perpendicularity_matrix g) i j)
                                   (elems sed_dips_dips i j))\<rparr>
                (nugget_effect_grad_T g)
         else None)"

text \<open>One term \<^verbatim>\<open>hu * (sed < a_T) * (- c_o_T * (...))\<close> of \<^verbatim>\<open>cov_interface_gradients\<close>.\<close>

definition cov_interface_gradients_term :: "real \<Rightarrow> real \<Rightarrow> real \<Rightarrow> real \<Rightarrow> real" where
  "cov_interface_gradients_term c_o a hu d = hu * of_bool (d < a) * (- c_o * first_derivative a d)"

text \<open>
  The stacked coordinate differences between the dips and a point set \<open>ps\<close>
  (\<^verbatim>\<open>hu_rest\<close>, \<^verbatim>\<open>hu_ref\<close>, \<^verbatim>\<open>hu_SimPoint\<close>).
\<close>

definition hu_points :: "graph \<Rightarrow> point list \<Rightarrow> matrix" where
  "hu_points g ps =
     vertical_stack
       [transpose_matrix (coord_differences 0 (dips_position g) ps),
        transpose_matrix (coord_differences 1 (dips_position g) ps),
        transpose_matrix (coord_differences 2 (dips_position g) ps)]"

text \<open>The kernel between the tiled dips and a point set, one factor of \<^verbatim>\<open>C_GI\<close>.\<close>

definition gradient_kernel :: "graph \<Rightarrow> point list \<Rightarrow> matrix option" where
  "gradient_kernel g ps =
     elemwise (cov_interface_gradients_term (c_o_T g) (a_T g)) (hu_points g ps)
       (squared_euclidean_distances (dips_position_tiled g) ps)"

definition cov_interface_gradients :: "graph \<Rightarrow> matrix option" where
  "cov_interface_gradients g =
     do {
       k_rest \<leftarrow> gradient_kernel g (rest_layer_points g);
       k_ref \<leftarrow> gradient_kernel g (ref_layer_points g);
       diff \<leftarrow> elemwise (-) k_rest k_ref;
       Some (transpose_matrix (map_matrix (\<lambda>t. gi_reescale g * t) diff))
     }"

text \<open>
  \<^verbatim>\<open>universal_matrix\<close>. Column \<open>k\<close> of \<^verbatim>\<open>U_G\<close> as the assignments to \<^verbatim>\<open>U_G[n*b:n*(b+1), k]\<close>
  leave it: row block \<open>b\<close> is the direction of the derivative, \<open>p\<close> the dip of the row.
\<close>

definition U_G_entry :: "real \<Rightarrow> nat \<Rightarrow> nat \<Rightarrow> point \<Rightarrow> real" where
  "U_G_entry gi b k p =
     (if k = 0 then (if b = 0 then 1 else 0)
      else if k = 1 then (if b = 1 then 1 else 0)
      else if k = 2 then (if b = 2 then 1 else 0)
      else if k = 3 then (if b = 0 then 2 * gi * coord 0 p else 0)
      else if k = 4 then (if b = 1 then 2 * gi * coord 1 p else 0)
      else if k = 5 then (if b = 2 then 2 * gi * coord 2 p else 0)
      else if k = 6 then (if b = 0 then gi * coord 1 p else if b = 1 then gi * coord 0 p else 0)
      else if k = 7 then (if b = 0 then gi * coord 2 p else if b = 2 then gi * coord 0 p else 0)
      else if k = 8 then (if b = 1 then gi * coord 2 p else if b = 2 then gi * coord 1 p else 0)
      else 0)"

definition U_G_full :: "graph \<Rightarrow> matrix" where
  "U_G_full g =
     (let n = length (dips_position g)
      in \<lparr>shape0 = n * n_dimensions, shape1 = 3 * n_dimensions,
          elems = (\<lambda>i k. U_G_entry (gi_reescale g) (i div n) k (dips_position g ! (i mod n)))\<rparr>)"

text \<open>Row \<open>k\<close> of the stack that \<^verbatim>\<open>U_I\<close> is the negated transpose of.\<close>

definition U_I_entry :: "real \<Rightarrow> nat \<Rightarrow> point \<Rightarrow> point \<Rightarrow> real" where
  "U_I_entry gi k p q =
     (if k = 0 then gi * (coord 0 p - coord 0 q)
      else if k = 1 then gi * (coord 1 p - coord 1 q)
      else if k = 2 then gi * (coord 2 p - coord 2 q)
      else if k = 3 then gi ^ 2 * ((coord 0 p) ^ 2 - (coord 0 q) ^ 2)
      else if k = 4 then gi ^ 2 * ((coord 1 p) ^ 2 - (coord 1 q) ^ 2)
      else if k = 5 then gi ^ 2 * ((coord 2 p) ^ 2 - (coord 2 q) ^ 2)
      else if k = 6 then gi ^ 2 * (coord 0 p * coord 1 p - coord 0 q * coord 1 q)
      else if k = 7 then gi ^ 2 * (coord 0 p * coord 2 p - coord 0 q * coord 2 q)
      else gi ^ 2 * (coord 1 p * coord 2 p - coord 1 q * coord 2 q))"

definition universal_matrix :: "graph \<Rightarrow> (matrix \<times> matrix) option" where
  "universal_matrix g =
     (if length (rest_layer_points g) = length (ref_layer_points g)
      then Some
        (slice_cols 0 (n_universal_eq_T_op g)
           \<lparr>shape0 = length (rest_layer_points g), shape1 = 9,
            elems = (\<lambda>i k. - U_I_entry (gi_reescale g) k (rest_layer_points g ! i)
                                (ref_layer_points g ! i))\<rparr>,
         slice_cols 0 (n_universal_eq_T_op g) (U_G_full g))
      else None)"

text \<open>\<^verbatim>\<open>faults_matrix\<close>.\<close>

definition faults_matrix :: "graph \<Rightarrow> (matrix \<times> matrix) option" where
  "faults_matrix g =
     do {
       d \<leftarrow> elemwise (-) (fault_drift_at_surface_points_ref g) (fault_drift_at_surface_points_rest g);
       Some (map_matrix (\<lambda>t. t + 1 / 10000) d,
             map_matrix (\<lambda>t. t + 1 / 10000) (zeros (length_of_faults g) (length_of_CG g)))
     }"

text \<open>\<^verbatim>\<open>covariance_matrix\<close>: the twelve blocks are written into a zero matrix one by one.\<close>

definition covariance_matrix :: "graph \<Rightarrow> matrix option" where
  "covariance_matrix g =
     do {
       let CG = length_of_CG g; let CGI = length_of_CGI g; let UI = length_of_U_I g;
       let L = length_of_C g;
       C_G \<leftarrow> cov_gradients g;
       C_I \<leftarrow> cov_surface_points g;
       C_GI \<leftarrow> cov_interface_gradients g;
       (U_I, U_G) \<leftarrow> universal_matrix g;
       (F_I, F_G) \<leftarrow> faults_matrix g;
       let C = zeros L L;
       C \<leftarrow> set_subtensor C 0 CG 0 CG C_G;
       C \<leftarrow> set_subtensor C 0 CG CG (CG + CGI) (transpose_matrix C_GI);
       C \<leftarrow> set_subtensor C 0 CG (CG + CGI) (CG + CGI + UI) U_G;
       C \<leftarrow> set_subtensor C 0 CG (CG + CGI + UI) (shape1 C) (transpose_matrix F_G);
       C \<leftarrow> set_subtensor C CG (CG + CGI) 0 CG C_GI;
       C \<leftarrow> set_subtensor C CG (CG + CGI) CG (CG + CGI) C_I;
       C \<leftarrow> set_subtensor C CG (CG + CGI) (CG + CGI) (CG + CGI + UI) U_I;
       C \<leftarrow> set_subtensor C CG (CG + CGI) (CG + CGI + UI) (shape1 C) (transpose_matrix F_I);
       C \<leftarrow> set_subtensor C (CG + CGI) (CG + CGI + UI) 0 CG (transpose_matrix U_G);
       C \<leftarrow> set_subtensor C (CG + CGI) (CG + CGI + UI) CG (CG + CGI) (transpose_matrix U_I);
       C \<leftarrow> set_subtensor C (CG + CGI + UI) (shape0 C) 0 CG F_G;
       set_subtensor C (CG + CGI + UI) (shape0 C) CG (CG + CGI) F_I
     }"

section \<open>Evaluation of the scalar field\<close>

definition x_to_interpolate :: "graph \<Rightarrow> point list \<Rightarrow> point list" where
  "x_to_interpolate g grid = grid @ rest_layer_points_all g @ ref_layer_points_all g"

text \<open>\<^verbatim>\<open>extend_dual_kriging\<close> with \<^verbatim>\<open>dot_version = False\<close>: the weights, one column per point.\<close>

definition extend_dual_kriging :: "real list \<Rightarrow> nat \<Rightarrow> matrix" where
  "extend_dual_kriging weights grid_shape =
     \<lparr>shape0 = length weights, shape1 = grid_shape, elems = (\<lambda>i j. weights ! i)\<rparr>"

definition contribution_gradient_interface :: "graph \<Rightarrow> point list \<Rightarrow> matrix \<Rightarrow> real list option" where
  "contribution_gradient_interface g grid_val weights =
     do {
       k \<leftarrow> elemwise (\<lambda>hu d. cov_interface_gradients_term (c_o_T g) (a_T g) (- hu) d)
              (hu_points g grid_val)
              (squared_euclidean_distances (dips_position_tiled g) grid_val);
       t \<leftarrow> elemwise (\<lambda>w x. w * gi_reescale g * x) (slice_rows 0 (length_of_CG g) weights) k;
       Some (sum_axis0 t)
     }"

definition contribution_interface :: "graph \<Rightarrow> point list \<Rightarrow> matrix \<Rightarrow> real list option" where
  "contribution_interface g grid_val weights =
     do {
       let sed_rest_SimPoint = squared_euclidean_distances (rest_layer_points g) grid_val;
       let sed_ref_SimPoint = squared_euclidean_distances (ref_layer_points g) grid_val;
       d \<leftarrow> elemwise (-) (map_matrix (cov_surface_points_term (a_T g)) sed_rest_SimPoint)
                         (map_matrix (cov_surface_points_term (a_T g)) sed_ref_SimPoint);
       t \<leftarrow> elemwise (\<lambda>w x. - w * (c_o_T g * i_reescale g * x))
              (slice_rows (length_of_CG g) (length_of_CG g + length_of_CGI g) weights) d;
       Some (sum_axis0 t)
     }"

text \<open>Row \<open>k\<close> of \<^verbatim>\<open>universal_grid_surface_points_matrix\<close> at the point \<open>p\<close>.\<close>

definition universal_grid_entry :: "nat \<Rightarrow> point \<Rightarrow> real" where
  "universal_grid_entry k p =
     (if k < 3 then coord k p
      else if k < 6 then (coord (k - 3) p) ^ 2
      else if k = 6 then coord 0 p * coord 1 p
      else if k = 7 then coord 0 p * coord 2 p
      else coord 1 p * coord 2 p)"

definition contribution_universal_drift :: "graph \<Rightarrow> point list \<Rightarrow> matrix \<Rightarrow> real list option" where
  "contribution_universal_drift g grid_val weights =
     do {
       let universal_grid_surface_points_matrix =
             \<lparr>shape0 = 9, shape1 = length grid_val,
              elems = (\<lambda>k j. universal_grid_entry k (grid_val ! j))\<rparr>;
       let i_rescale_aux = replicate 3 1 @ replicate 6 (gi_reescale g);
       let aux_magic_term =
             \<lparr>shape0 = length (take (n_universal_eq_T_op g) i_rescale_aux), shape1 = length grid_val,
              elems = (\<lambda>k j. take (n_universal_eq_T_op g) i_rescale_aux ! k)\<rparr>;
       t \<leftarrow> elemwise (\<lambda>w x. w * gi_reescale g * x)
              (slice_rows (length_of_CG g + length_of_CGI g)
                 (length_of_CG g + length_of_CGI g + length_of_U_I g) weights)
              aux_magic_term;
       t \<leftarrow> elemwise (*) t (slice_rows 0 (n_universal_eq_T_op g) universal_grid_surface_points_matrix);
       Some (sum_axis0 t)
     }"

text \<open>
  \<^verbatim>\<open>contribution_faults\<close>: \<^verbatim>\<open>self.fault_matrix[a:b]\<close> slices the first axis of the fault
  matrix, the one that counts the faults.
\<close>

definition contribution_faults :: "graph \<Rightarrow> matrix \<Rightarrow> nat \<Rightarrow> nat \<Rightarrow> real list option" where
  "contribution_faults g weights a b =
     do {
       let fault_matrix_selection_non_zero = slice_rows a b (fault_matrix g);
       t \<leftarrow> elemwise (*)
              (slice_rows (length_of_CG g + length_of_CGI g + length_of_U_I g) (shape0 weights) weights)
              fault_matrix_selection_non_zero;
       Some (sum_axis0 t)
     }"

text \<open>\<^verbatim>\<open>xs[a:b]\<close> for bounds that are not negative.\<close>

definition slice :: "nat \<Rightarrow> nat \<Rightarrow> 'a list \<Rightarrow> 'a list" where
  "slice a b xs = take (b - a) (drop a xs)"

text \<open>
  \<^verbatim>\<open>T.set_subtensor(Z[a:b], v)\<close> on vectors: numpy broadcasts a \<open>v\<close> of length 1 and raises
  when another length differs from the length of the slice.
\<close>

definition set_slice :: "real list \<Rightarrow> nat \<Rightarrow> nat \<Rightarrow> real list \<Rightarrow> real list option" where
  "set_slice Z a b v =
     (let s = min a (length Z); e = min b (length Z)
      in if length v = e - s then Some (take s Z @ v @ drop (s + (e - s)) Z)
         else if length v = 1 then Some (take s Z @ replicate (e - s) (hd v) @ drop (s + (e - s)) Z)
         else None)"

definition scalar_field_loop ::
  "graph \<Rightarrow> nat \<Rightarrow> nat \<Rightarrow> real list \<Rightarrow> point list \<Rightarrow> matrix \<Rightarrow> real list option" where
  "scalar_field_loop g a b Z_x grid_val weights =
     do {
       sigma_0_grad \<leftarrow> contribution_gradient_interface g (slice a b grid_val) (slice_cols a b weights);
       sigma_0_interf \<leftarrow> contribution_interface g (slice a b grid_val) (slice_cols a b weights);
       f_0 \<leftarrow> contribution_universal_drift g (slice a b grid_val) (slice_cols a b weights);
       f_1 \<leftarrow> contribution_faults g (slice_cols a b weights) a b;
       s1 \<leftarrow> add_vec sigma_0_grad sigma_0_interf;
       s2 \<leftarrow> add_vec s1 f_0;
       partial_Z_x \<leftarrow> add_vec s2 f_1;
       set_slice Z_x a b partial_Z_x
     }"

text \<open>
  The scan \<^verbatim>\<open>Looping grid\<close> of \<^verbatim>\<open>scalar_field_at_all\<close> over the consecutive pairs of
  \<open>slices\<close>, started from \<^verbatim>\<open>Z_x_init\<close>.
\<close>

fun looping_grid :: "graph \<Rightarrow> nat list \<Rightarrow> real list \<Rightarrow> point list \<Rightarrow> matrix \<Rightarrow> real list option" where
  "looping_grid g (a # b # slices) Z_x grid_val weights =
     do {
       Z_x' \<leftarrow> scalar_field_loop g a b Z_x grid_val weights;
       looping_grid g (b # slices) Z_x' grid_val weights
     }"
| "looping_grid g slices Z_x grid_val weights = Some Z_x"

text \<open>\<^verbatim>\<open>xs[i:j]\<close> for bounds of either sign: a negative bound counts from the end.\<close>

definition clip_index :: "nat \<Rightarrow> int \<Rightarrow> nat" where
  "clip_index n i = (if i < 0 then nat (int n + i) else min n (nat i))"

definition py_slice :: "int \<Rightarrow> int \<Rightarrow> 'a list \<Rightarrow> 'a list" where
  "py_slice i j xs = slice (clip_index (length xs) i) (clip_index (length xs) j) xs"

text \<open>
  \<^verbatim>\<open>scalar_field_at_all\<close>. \<open>slices\<close> is the value of
  \<^verbatim>\<open>T.concatenate((T.arange(0, grid_shape[0], steps[0], dtype='int64'), grid_shape))\<close>, the
  chunk boundaries that the element budget \<^verbatim>\<open>1e13\<close> gives; the scan's last output is
  read, which raises when the scan made no step.
\<close>

definition scalar_field_at_all ::
  "graph \<Rightarrow> nat list \<Rightarrow> real list \<Rightarrow> point list \<Rightarrow> (real list \<times> real list) option" where
  "scalar_field_at_all g slices weights grid_val =
     do {
       let tiled_weights = extend_dual_kriging weights (length grid_val);
       let Z_x_init = replicate (length grid_val) 0;
       Z_x \<leftarrow> (if length slices < 2 then None
                else looping_grid g slices Z_x_init grid_val tiled_weights);
       scalar_field_at_surface_points_values \<leftarrow>
         take_indices (py_slice (- 2 * len_points g) (- len_points g) Z_x) (npf_op g);
       Some (Z_x, scalar_field_at_surface_points_values)
     }"

section \<open>Block export\<close>

text \<open>\<^verbatim>\<open>xs[i]\<close> for an index of either sign; out of range it raises.\<close>

definition py_index :: "'a list \<Rightarrow> int \<Rightarrow> 'a option" where
  "py_index xs i =
     (if 0 \<le> i \<and> i < int (length xs) then Some (xs ! nat i)
      else if - int (length xs) \<le> i \<and> i < 0 then Some (xs ! nat (int (length xs) + i))
      else None)"

definition mean_points :: "point list \<Rightarrow> point" where
  "mean_points ps =
     (sum_list (map (coord 0) ps) / real (length ps),
      sum_list (map (coord 1) ps) / real (length ps),
      sum_list (map (coord 2) ps) / real (length ps))"

definition sub_point :: "point \<Rightarrow> point \<Rightarrow> point" where
  "sub_point p q = (coord 0 p - coord 0 q, coord 1 p - coord 1 q, coord 2 p - coord 2 q)"

text \<open>A \<open>3 \<times> 3\<close> matrix is the triple of its rows.\<close>

type_synonym matrix3 = "point \<times> point \<times> point"

text \<open>\<^verbatim>\<open>T.dot(x, x.T)\<close> for the \<open>3 \<times> n\<close> matrix \<open>x\<close> whose columns are the points \<open>ps\<close>.\<close>

definition scatter_matrix :: "point list \<Rightarrow> matrix3" where
  "scatter_matrix ps =
     ((sum_list (map (\<lambda>p. coord 0 p * coord 0 p) ps), sum_list (map (\<lambda>p. coord 0 p * coord 1 p) ps),
       sum_list (map (\<lambda>p. coord 0 p * coord 2 p) ps)),
      (sum_list (map (\<lambda>p. coord 1 p * coord 0 p) ps), sum_list (map (\<lambda>p. coord 1 p * coord 1 p) ps),
       sum_list (map (\<lambda>p. coord 1 p * coord 2 p) ps)),
      (sum_list (map (\<lambda>p. coord 2 p * coord 0 p) ps), sum_list (map (\<lambda>p. coord 2 p * coord 1 p) ps),
       sum_list (map (\<lambda>p. coord 2 p * coord 2 p) ps)))"

text \<open>\<^verbatim>\<open>T.dot(p, U)\<close> for a row \<open>p\<close>.\<close>

definition rotate :: "matrix3 \<Rightarrow> point \<Rightarrow> point" where
  "rotate U p =
     (case U of (u0, u1, u2) \<Rightarrow>
        (coord 0 p * coord 0 u0 + coord 1 p * coord 0 u1 + coord 2 p * coord 0 u2,
         coord 0 p * coord 1 u0 + coord 1 p * coord 1 u1 + coord 2 p * coord 1 u2,
         coord 0 p * coord 2 u0 + coord 1 p * coord 2 u1 + coord 2 p * coord 2 u2))"

text \<open>\<^verbatim>\<open>T.max\<close> and \<^verbatim>\<open>T.min\<close> of a vector: they raise on an empty one.\<close>

fun max_vec :: "real list \<Rightarrow> real option" where
  "max_vec [] = None"
| "max_vec (x # xs) = Some (fold max xs x)"

fun min_vec :: "real list \<Rightarrow> real option" where
  "min_vec [] = None"
| "min_vec (x # xs) = Some (fold min xs x)"

text \<open>
  The test \<^verbatim>\<open>T.lt((x - c0) ** 2 / a_radio ** 2 + (y - c1) ** 2 / b_radio ** 2, 1)\<close> of
  \<^verbatim>\<open>select_finite_faults\<close> for one rotated point. The quotients are float quotients: for
  a radius that is 0 the quotient is \<^verbatim>\<open>inf\<close> or \<^verbatim>\<open>nan\<close>, so is the sum, and the
  comparison with 1 is false. Hence no point is flagged when a radius is 0.
\<close>

definition inside_ellipse :: "real \<Rightarrow> real \<Rightarrow> point \<Rightarrow> point \<Rightarrow> bool" where
  "inside_ellipse a_radio b_radio rotated_ctr p =
     (a_radio ^ 2 \<noteq> 0 \<and> b_radio ^ 2 \<noteq> 0 \<and>
      (coord 0 p - coord 0 rotated_ctr) ^ 2 / a_radio ^ 2 +
      (coord 1 p - coord 1 rotated_ctr) ^ 2 / b_radio ^ 2 < 1)"

text \<open>
  \<^verbatim>\<open>select_finite_faults\<close>. The singular value decomposition is the library's:
  \<open>svd_V\<close> stands for \<^verbatim>\<open>T.nlinalg.svd(M)[2]\<close>.
\<close>

definition select_finite_faults ::
  "(matrix3 \<Rightarrow> matrix3) \<Rightarrow> graph \<Rightarrow> int \<Rightarrow> point list \<Rightarrow> bool list option" where
  "select_finite_faults svd_V g n_series grid =
     do {
       ref0 \<leftarrow> py_index (ref_layer_points g) 0;
       let fault_points = ref0 # rest_layer_points g;
       let ctr = mean_points fault_points;
       let x = map (\<lambda>p. sub_point p ctr) fault_points;
       let M = scatter_matrix x;
       let U = svd_V M;
       let rotated_x = map (rotate U) grid;
       let rotated_fault_points = map (rotate U) fault_points;
       let rotated_ctr = mean_points rotated_fault_points;
       inf \<leftarrow> py_index (inf_factor g) (n_series - 1);
       max0 \<leftarrow> max_vec (map (coord 0) rotated_fault_points);
       min0 \<leftarrow> min_vec (map (coord 0) rotated_fault_points);
       max1 \<leftarrow> max_vec (map (coord 1) rotated_fault_points);
       min1 \<leftarrow> min_vec (map (coord 1) rotated_fault_points);
       let a_radio = (max0 - min0) / 2 + inf;
       let b_radio = (max1 - min1) / 2 + inf;
       Some (map (inside_ellipse a_radio b_radio rotated_ctr) rotated_x)
     }"

text \<open>The slope \<open>l\<close> of \<^verbatim>\<open>compare\<close> is a scalar for a formation and a vector for a fault.\<close>

datatype slope = Scalar real | Vector "real list"

text \<open>\<^verbatim>\<open>l * v\<close>, elementwise: a vector \<open>l\<close> has to have the length of \<open>v\<close>.\<close>

fun mul_slope :: "(real \<Rightarrow> real) \<Rightarrow> slope \<Rightarrow> real list \<Rightarrow> real list option" where
  "mul_slope s (Scalar l) v = Some (map (\<lambda>x. s l * x) v)"
| "mul_slope s (Vector ls) v =
     (if length ls = length v then Some (map2 (\<lambda>l x. s l * x) ls v) else None)"

text \<open>\<^verbatim>\<open>A.reshape((-1, 1))\<close>.\<close>

definition reshape_column :: "matrix \<Rightarrow> matrix" where
  "reshape_column A =
     \<lparr>shape0 = shape0 A * shape1 A, shape1 = 1,
      elems = (\<lambda>i j. elems A (i div shape1 A) (i mod shape1 A))\<rparr>"

text \<open>
  \<^verbatim>\<open>c / (1 + T.exp(v))\<close> for a column \<open>c\<close> (shape \<open>r \<times> 1\<close>, the second dimension
  broadcastable) and a vector \<open>v\<close>: the result has shape \<open>r \<times> len(v)\<close>.
\<close>

definition sigmoid_term :: "matrix \<Rightarrow> real list \<Rightarrow> matrix" where
  "sigmoid_term c v =
     \<lparr>shape0 = shape0 c, shape1 = length v, elems = (\<lambda>i j. elems c i 0 / (1 + exp (v ! j)))\<rparr>"

text \<open>\<^verbatim>\<open>A + c\<close> for a column \<open>c\<close> whose second dimension is broadcastable.\<close>

definition add_column :: "matrix \<Rightarrow> matrix \<Rightarrow> matrix option" where
  "add_column A c =
     (if shape0 A = shape0 c
      then Some \<lparr>shape0 = shape0 A, shape1 = shape1 A, elems = (\<lambda>i j. elems A i j + elems c i 0)\<rparr>
      else None)"

definition compare ::
  "real \<Rightarrow> real \<Rightarrow> nat \<Rightarrow> real list \<Rightarrow> slope \<Rightarrow> matrix \<Rightarrow> matrix \<Rightarrow> matrix option" where
  "compare a b slice_init Z_x l n_surface drift =
     do {
       let n_surface_0 = slice_cols slice_init (slice_init + 1) n_surface;
       let n_surface_1 = slice_cols (slice_init + 1) (slice_init + 2) n_surface;
       let drift = slice_cols slice_init (slice_init + 1) drift;
       e0 \<leftarrow> mul_slope uminus l (map (\<lambda>z. z - a) Z_x);
       e1 \<leftarrow> mul_slope (\<lambda>l. l) l (map (\<lambda>z. z - b) Z_x);
       d \<leftarrow> elemwise (-) (sigmoid_term (map_matrix uminus (reshape_column n_surface_0)) e0)
                         (sigmoid_term (reshape_column n_surface_1) e1);
       add_column d (reshape_column drift)
     }"

text \<open>\<^verbatim>\<open>T.repeat(A, 2, axis=1)\<close>.\<close>

definition repeat_columns :: "matrix \<Rightarrow> matrix" where
  "repeat_columns A = \<lparr>shape0 = shape0 A, shape1 = shape1 A * 2, elems = (\<lambda>i j. elems A i (j div 2))\<rparr>"

text \<open>A constant column index \<open>c\<close> of either sign on the second axis: out of range it raises.\<close>

definition column_index :: "matrix \<Rightarrow> int \<Rightarrow> nat option" where
  "column_index A c =
     (if 0 \<le> c \<and> c < int (shape1 A) then Some (nat c)
      else if - int (shape1 A) \<le> c \<and> c < 0 then Some (nat (int (shape1 A) + c))
      else None)"

text \<open>\<^verbatim>\<open>T.set_subtensor(A[:, c], v)\<close> for a scalar \<open>v\<close>.\<close>

definition set_column :: "matrix \<Rightarrow> int \<Rightarrow> real \<Rightarrow> matrix option" where
  "set_column A c v =
     do {
       k \<leftarrow> column_index A c;
       Some \<lparr>shape0 = shape0 A, shape1 = shape1 A,
             elems = (\<lambda>i j. if j = k then v else elems A i j)\<rparr>
     }"

text \<open>\<^verbatim>\<open>T.set_subtensor(A[:, c], A[:, c'])\<close>.\<close>

definition copy_column :: "matrix \<Rightarrow> int \<Rightarrow> int \<Rightarrow> matrix option" where
  "copy_column A c c' =
     do {
       k' \<leftarrow> column_index A c';
       k \<leftarrow> column_index A c;
       Some \<lparr>shape0 = shape0 A, shape1 = shape1 A,
             elems = (\<lambda>i j. if j = k then elems A i k' else elems A i j)\<rparr>
     }"

text \<open>\<^verbatim>\<open>T.arange(0, n, 2)\<close>.\<close>

definition arange2 :: "nat \<Rightarrow> nat list" where
  "arange2 n = map (\<lambda>i. 2 * i) [0..<(n + 1) div 2]"

text \<open>
  The scan \<^verbatim>\<open>Looping compare\<close>: one call of \<^verbatim>\<open>compare\<close> for every consecutive pair of
  \<open>scalar_field_iter\<close> and every second column index, as many as the shorter sequence has.
\<close>

definition looping_compare ::
  "real list \<Rightarrow> real list \<Rightarrow> slope \<Rightarrow> matrix \<Rightarrow> matrix \<Rightarrow> matrix list option" where
  "looping_compare scalar_field_iter Z_x l n_surface drift =
     those (map (\<lambda>((a, b), slice_init). compare a b slice_init Z_x l n_surface drift)
              (zip (zip scalar_field_iter (tl scalar_field_iter)) (arange2 (shape1 n_surface))))"

text \<open>
  \<^verbatim>\<open>.sum(axis=0)\<close> of the scan's output, the stack of the matrices \<^verbatim>\<open>compare\<close> returned
  (all of one shape).
\<close>

fun sum_stack :: "matrix list \<Rightarrow> matrix option" where
  "sum_stack [] = None"
| "sum_stack (A # As) =
     Some \<lparr>shape0 = shape0 A, shape1 = shape1 A,
           elems = (\<lambda>i j. sum_list (map (\<lambda>M. elems M i j) (A # As)))\<rparr>"

definition scalar_field_iter :: "real \<Rightarrow> real \<Rightarrow> real list \<Rightarrow> real list" where
  "scalar_field_iter max_pot min_pot scalar_field_at_surface_points =
     (let boundary_pad = (max_pot - min_pot) * (1 / 100)
      in [max_pot + boundary_pad] @ scalar_field_at_surface_points @ [min_pot - boundary_pad])"

definition export_formation_block :: "real list \<Rightarrow> real list \<Rightarrow> matrix \<Rightarrow> real \<Rightarrow> matrix option" where
  "export_formation_block Z_x scalar_field_at_surface_points values_properties_op slope =
     do {
       max_pot \<leftarrow> max_vec Z_x;
       min_pot \<leftarrow> min_vec Z_x;
       let l = slope / (max_pot - min_pot);
       let n_surface_op_float_sigmoid = repeat_columns values_properties_op;
       n_surface_op_float_sigmoid \<leftarrow> set_column n_surface_op_float_sigmoid 0 (- 1);
       n_surface_op_float_sigmoid \<leftarrow> set_column n_surface_op_float_sigmoid (- 1) (- 1);
       drift \<leftarrow> copy_column n_surface_op_float_sigmoid 0 1;
       formations_block \<leftarrow>
         looping_compare (scalar_field_iter max_pot min_pot scalar_field_at_surface_points)
           Z_x (Scalar l) n_surface_op_float_sigmoid drift;
       sum_stack formations_block
     }"

text \<open>\<^verbatim>\<open>A[[0], :]\<close>: the first row, which has to exist.\<close>

definition first_row :: "matrix \<Rightarrow> matrix option" where
  "first_row A = (if 0 < shape0 A then Some \<lparr>shape0 = 1, shape1 = shape1 A, elems = (\<lambda>i j. elems A 0 j)\<rparr>
                  else None)"

text \<open>\<^verbatim>\<open>l\<close> of \<^verbatim>\<open>export_fault_block\<close>, the \<^verbatim>\<open>T.switch\<close> on the selection of the finite fault.\<close>

definition fault_slope :: "bool list \<Rightarrow> real \<Rightarrow> real \<Rightarrow> real \<Rightarrow> real \<Rightarrow> real list" where
  "fault_slope finite_faults_sel max_pot min_pot slope offset_slope =
     map (\<lambda>s. if s then offset_slope / (max_pot - min_pot) else slope / (max_pot - min_pot))
       finite_faults_sel"

definition export_fault_block ::
  "real list \<Rightarrow> real list \<Rightarrow> matrix \<Rightarrow> bool list \<Rightarrow> real \<Rightarrow> real \<Rightarrow> matrix option" where
  "export_fault_block Z_x scalar_field_at_surface_points values_properties_op finite_faults_sel
       slope offset_slope =
     do {
       max_pot \<leftarrow> max_vec Z_x;
       min_pot \<leftarrow> min_vec Z_x;
       let l = fault_slope finite_faults_sel max_pot min_pot slope offset_slope;
       row0 \<leftarrow> first_row values_properties_op;
       let n_surface_op_float_sigmoid = repeat_columns row0;
       n_surface_op_float_sigmoid \<leftarrow> set_column n_surface_op_float_sigmoid 1 (- 1);
       n_surface_op_float_sigmoid \<leftarrow> set_column n_surface_op_float_sigmoid (- 1) (- 1);
       drift \<leftarrow> copy_column n_surface_op_float_sigmoid 0 1;
       fault_block \<leftarrow>
         looping_compare (scalar_field_iter max_pot min_pot scalar_field_at_surface_points)
           Z_x (Vector l) n_surface_op_float_sigmoid drift;
       sum_stack fault_block
     }"

text \<open>The entry points, with the default slopes of the two exports.\<close>

definition compute_formation_block :: "real list \<Rightarrow> real list \<Rightarrow> matrix \<Rightarrow> matrix option" where
  "compute_formation_block Z_x scalar_field_at_surface_points values =
     export_formation_block Z_x scalar_field_at_surface_points values 5000"

definition compute_fault_block ::
  "(matrix3 \<Rightarrow> matrix3) \<Rightarrow> graph \<Rightarrow> real list \<Rightarrow> real list \<Rightarrow> matrix \<Rightarrow> int \<Rightarrow> point list \<Rightarrow>
     matrix option" where
  "compute_fault_block svd_V g Z_x scalar_field_at_surface_points values n_series grid =
     do {
       let grid_val = x_to_interpolate g grid;
       finite_faults_sel \<leftarrow> select_finite_faults svd_V g n_series grid_val;
       export_fault_block Z_x scalar_field_at_surface_points values finite_faults_sel 50 5000
     }"

definition compute_scalar_field ::
  "graph \<Rightarrow> nat list \<Rightarrow> real list \<Rightarrow> point list \<Rightarrow> matrix \<Rightarrow> (real list \<times> real list) option" where
  "compute_scalar_field g slices weights grid fault_matrix' =
     (let g' = g\<lparr>fault_matrix := fault_matrix'\<rparr>
      in scalar_field_at_all g' slices weights (x_to_interpolate g' grid))"

section \<open>The fields of a series\<close>





section \<open>Notions of the specification\<close>

text \<open>
  For a series given surface by surface: the position of the first point of every
  surface, and the mask that is 0 at these positions and 1 elsewhere.
\<close>

fun offsets :: "nat \<Rightarrow> 'a list list \<Rightarrow> nat list" where
  "offsets acc [] = []"
| "offsets acc (s # ss) = acc # offsets (acc + length s) ss"

definition rest_mask_of :: "'a list list \<Rightarrow> int list" where
  "rest_mask_of ss = concat (map (\<lambda>s. 0 # replicate (length s - 1) 1) ss)"

text \<open>The distance between two points that the specification speaks of.\<close>

definition euclidean_distance :: "point \<Rightarrow> point \<Rightarrow> real" where
  "euclidean_distance p q =
     sqrt ((coord 0 p - coord 0 q)\<^sup>2 + (coord 1 p - coord 1 q)\<^sup>2 + (coord 2 p - coord 2 q)\<^sup>2)"

text \<open>
  The shapes that an evaluation in one piece needs: a column of weights for every
  evaluation point and a weight for every row of the kriging system, a column of the fault
  matrix for every evaluation point, and as many reference as rest points.
\<close>

definition consistent_evaluation :: "graph \<Rightarrow> point list \<Rightarrow> matrix \<Rightarrow> bool" where
  "consistent_evaluation g grid_val weights =
     (shape0 weights = length_of_C g \<and> shape1 weights = length grid_val \<and>
      shape1 (fault_matrix g) = length grid_val \<and>
      length (ref_layer_points g) = length (rest_layer_points g) \<and>
      n_universal_eq_T_op g \<le> 9)"

text \<open>
  The slope that \<^verbatim>\<open>compare\<close> uses at the evaluation point \<open>j\<close>, and the condition under which
  the elementwise product of a slope with the field is defined.
\<close>

definition slope_at :: "slope \<Rightarrow> nat \<Rightarrow> real" where
  "slope_at l j = (case l of Scalar x \<Rightarrow> x | Vector ls \<Rightarrow> ls ! j)"

definition slope_fits :: "slope \<Rightarrow> real list \<Rightarrow> bool" where
  "slope_fits l Z = (case l of Scalar x \<Rightarrow> True | Vector ls \<Rightarrow> length ls = length Z)"

text \<open>
  The specification's smooth indicator of one pair of thresholds \<open>(a, b)\<close> at a point with
  the field value \<open>z\<close>:
  \<open>\<sigma> = -id_low/(1+exp(-l(Z-a))) - id_high/(1+exp(l(Z-b))) + drift\<close>.
\<close>

definition indicator :: "real \<Rightarrow> real \<Rightarrow> real \<Rightarrow> real \<Rightarrow> real \<Rightarrow> real \<Rightarrow> real \<Rightarrow> real" where
  "indicator l id_low id_high drift a b z =
     - id_low / (1 + exp (- l * (z - a))) - id_high / (1 + exp (l * (z - b))) + drift"

text \<open>
  The specification's list of thresholds: \<open>[max(Z) + pad, the field values at the surface
  points in series order, min(Z) - pad]\<close> with \<open>pad\<close> 1% of the range of the field.
\<close>

definition thresholds :: "real list \<Rightarrow> real list \<Rightarrow> real list" where
  "thresholds Z sfsp =
     [Max (set Z) + (Max (set Z) - Min (set Z)) / 100] @ sfsp @
     [Min (set Z) - (Max (set Z) - Min (set Z)) / 100]"

text \<open>
  The identifiers and the drift that a formation series uses at the pair of thresholds
  \<open>t\<close>, for the row \<open>i\<close> of the values \<open>V\<close>: the value of the unit \<open>t\<close>, with the
  sentinel \<open>-1\<close> below the first and above the last threshold.
\<close>

definition unit_low :: "matrix \<Rightarrow> nat \<Rightarrow> nat \<Rightarrow> real" where
  "unit_low V t i = (if t = 0 then - 1 else elems V i t)"

definition unit_high :: "matrix \<Rightarrow> nat \<Rightarrow> nat \<Rightarrow> real" where
  "unit_high V t i = (if t + 1 = shape1 V then - 1 else elems V i t)"

definition unit_drift :: "matrix \<Rightarrow> nat \<Rightarrow> nat \<Rightarrow> real" where
  "unit_drift V t i = (if t = 0 \<and> shape1 V = 1 then - 1 else elems V i t)"

text \<open>
  The same for a fault series, which reads the first row of the values only and puts the
  sentinel at column 1 instead of column 0.
\<close>

definition fault_low :: "matrix \<Rightarrow> nat \<Rightarrow> real" where
  "fault_low V t = elems V 0 t"

definition fault_high :: "matrix \<Rightarrow> nat \<Rightarrow> real" where
  "fault_high V t = (if t = 0 \<or> t + 1 = shape1 V then - 1 else elems V 0 t)"

definition fault_drift :: "matrix \<Rightarrow> nat \<Rightarrow> real" where
  "fault_drift V t = (if t = 0 then - 1 else elems V 0 t)"

text \<open>
  The entry \<open>(i, j)\<close> of the kriging matrix, block by block: the gradient covariance, the
  gradient-interface covariance and its transpose, the interface covariance, the two
  universal drifts and their transposes, the two fault drifts and their transposes, and
  zeros in the lower right corner.
\<close>

definition block_entry ::
  "nat \<Rightarrow> nat \<Rightarrow> nat \<Rightarrow> matrix \<Rightarrow> matrix \<Rightarrow> matrix \<Rightarrow> matrix \<Rightarrow> matrix \<Rightarrow> matrix \<Rightarrow> matrix \<Rightarrow>
     nat \<Rightarrow> nat \<Rightarrow> real" where
  "block_entry CG CGI UI C_G C_I C_GI U_I U_G F_I F_G i j =
     (if i < CG then
        (if j < CG then elems C_G i j
         else if j < CG + CGI then elems C_GI (j - CG) i
         else if j < CG + CGI + UI then elems U_G i (j - (CG + CGI))
         else elems F_G (j - (CG + CGI + UI)) i)
      else if i < CG + CGI then
        (if j < CG then elems C_GI (i - CG) j
         else if j < CG + CGI then elems C_I (i - CG) (j - CG)
         else if j < CG + CGI + UI then elems U_I (i - CG) (j - (CG + CGI))
         else elems F_I (j - (CG + CGI + UI)) (i - CG))
      else if i < CG + CGI + UI then
        (if j < CG then elems U_G j (i - (CG + CGI))
         else if j < CG + CGI then elems U_I (j - CG) (i - (CG + CGI))
         else 0)
      else
        (if j < CG then elems F_G (i - (CG + CGI + UI)) j
         else if j < CG + CGI then elems F_I (i - (CG + CGI + UI)) (j - CG)
         else 0))"

text \<open>
  The inputs of a series whose shapes agree: as many reference as rest points, at most the
  nine drift functions of degree 2, and one row of fault drift at the rest points and at
  the reference points for every fault.
\<close>

definition admissible_series :: "graph \<Rightarrow> bool" where
  "admissible_series g =
     (length (ref_layer_points g) = length (rest_layer_points g) \<and>
      n_universal_eq_T_op g \<le> 9 \<and>
      shape0 (fault_drift_at_surface_points_rest g) = length_of_faults g \<and>
      shape1 (fault_drift_at_surface_points_rest g) = length_of_CGI g \<and>
      shape0 (fault_drift_at_surface_points_ref g) = length_of_faults g \<and>
      shape1 (fault_drift_at_surface_points_ref g) = length_of_CGI g)"

text \<open>
  A square matrix that equals its transpose.
\<close>

definition symmetric_matrix :: "matrix \<Rightarrow> bool" where
  "symmetric_matrix C =
     (shape0 C = shape1 C \<and> (\<forall>i j. i < shape0 C \<longrightarrow> j < shape0 C \<longrightarrow> elems C i j = elems C j i))"


section \<open>Concrete inputs\<close>

text \<open>
  A series with two orientations, one surface of two points, a drift of degree 1 and no
  fault. It is the input of the worked instances below.
\<close>

definition example_graph :: graph where
  "example_graph =
     \<lparr>a_T = 1, c_o_T = 1, nugget_effect_grad_T = 1 / 100, nugget_effect_scalar_T = 1 / 100,
      n_universal_eq_T_op = 3, i_reescale = 4, gi_reescale = 2,
      number_of_points_per_surface_T = [1], npf_op = [0],
      surface_points_all = [(0, 0, 0), (1, 0, 0)],
      dips_position = [(0, 0, 1), (3, 0, 1)],
      ref_layer_points_all = [(0, 0, 0)], rest_layer_points_all = [(1, 0, 0)],
      ref_layer_points = [(0, 0, 0)], rest_layer_points = [(1, 0, 0)],
      fault_matrix = zeros 0 4,
      fault_drift_at_surface_points_rest = zeros 0 1,
      fault_drift_at_surface_points_ref = zeros 0 1,
      inf_factor = [0]\<rparr>"

text \<open>
  The series of \<open>example_graph\<close> with one fault acting on it: the fault matrix has one row
  and a column for each of the four evaluation points (two grid points, the rest point
  and the reference point).
\<close>

definition example_fault_graph :: graph where
  "example_fault_graph =
     example_graph
       \<lparr>fault_matrix := \<lparr>shape0 = 1, shape1 = 4, elems = (\<lambda>i j. if j < 2 then 0 else 1)\<rparr>,
        fault_drift_at_surface_points_rest := \<lparr>shape0 = 1, shape1 = 1, elems = (\<lambda>i j. 1)\<rparr>,
        fault_drift_at_surface_points_ref := \<lparr>shape0 = 1, shape1 = 1, elems = (\<lambda>i j. 1)\<rparr>\<rparr>"

text \<open>
  A grid of two points.
\<close>

definition example_grid :: "point list" where
  "example_grid = [(0, 0, 1 / 2), (1, 1, 1)]"



text \<open>
  A scalar field at four evaluation points, and the values of two units.
\<close>

definition example_field :: "real list" where
  "example_field = [0, 1, 2, 3]"

definition example_values :: matrix where
  "example_values = \<lparr>shape0 = 1, shape1 = 2, elems = (\<lambda>i j. if j = 0 then 1 else 2)\<rparr>"

text \<open>
  The series of \<open>example_graph\<close> as a finite fault with the inflation 10, a grid with one
  point inside and one point outside its ellipse, and the identity as the matrix of
  principal axes.
\<close>

definition finite_fault_graph :: graph where
  "finite_fault_graph = example_graph\<lparr>inf_factor := [10]\<rparr>"

definition fault_grid :: "point list" where
  "fault_grid = [(0, 0, 1 / 2), (20, 0, 0)]"

definition identity3 :: matrix3 where
  "identity3 = ((1, 0, 0), (0, 1, 0), (0, 0, 1))"

section \<open>Distances and kernels\<close>

lemma sqrt_clamp: "sqrt (1 / 10 ^ 12) = (1 / 10 ^ 6 :: real)"
  by (rule real_sqrt_unique) (simp_all add: power2_eq_square)

lemma sed_entry_ge: "1 / 10 ^ 6 \<le> sed_entry p q"
proof -
  have "sqrt (1 / 10 ^ 12) \<le> sed_entry p q"
    unfolding sed_entry_def by (rule real_sqrt_le_mono) simp
  then show ?thesis by (simp only: sqrt_clamp)
qed

lemma sed_entry_pos: "0 < sed_entry p q"
  using sed_entry_ge [of p q] by simp

lemma sed_entry_same: "sed_entry p p = 1 / 10 ^ 6"
proof -
  have "sq_sum p + sq_sum p - 2 * dot p p = 0"
    by (cases p) (simp add: sq_sum_def dot_def power2_eq_square)
  then show ?thesis
    unfolding sed_entry_def by (simp only: sqrt_clamp max.absorb2 zero_le_divide_1_iff zero_le_power zero_le_numeral)
qed

lemma sed_entry_sym: "sed_entry p q = sed_entry q p"
  by (simp add: sed_entry_def dot_def add.commute mult.commute)

lemma sed_entry_dist:
  "sed_entry p q =
     max (sqrt ((coord 0 p - coord 0 q)\<^sup>2 + (coord 1 p - coord 1 q)\<^sup>2 + (coord 2 p - coord 2 q)\<^sup>2))
         (1 / 10 ^ 6)"
proof -
  have "sq_sum p + sq_sum q - 2 * dot p q =
     (coord 0 p - coord 0 q)\<^sup>2 + (coord 1 p - coord 1 q)\<^sup>2 + (coord 2 p - coord 2 q)\<^sup>2"
    by (simp add: sq_sum_def dot_def power2_eq_square algebra_simps)
  then have "sed_entry p q = sqrt (max ((coord 0 p - coord 0 q)\<^sup>2 + (coord 1 p - coord 1 q)\<^sup>2 + (coord 2 p - coord 2 q)\<^sup>2) (1 / 10 ^ 12))"
    by (simp only: sed_entry_def)
  also have "\<dots> = max (sqrt ((coord 0 p - coord 0 q)\<^sup>2 + (coord 1 p - coord 1 q)\<^sup>2 + (coord 2 p - coord 2 q)\<^sup>2)) (sqrt (1 / 10 ^ 12))"
    by (simp add: max_def)
  finally show ?thesis by (simp only: sqrt_clamp)
qed

lemma sed_entry_euclidean: "sed_entry p q = max (euclidean_distance p q) (1 / 10 ^ 6)"
  by (simp only: sed_entry_dist euclidean_distance_def)

lemma length_tile_rows [simp]: "length (tile_rows xs k) = k * length xs"
  by (simp add: tile_rows_def length_concat sum_list_replicate)

lemma length_dips_position_tiled: "length (dips_position_tiled g) = 3 * length (dips_position g)"
  by (simp add: dips_position_tiled_def n_dimensions_def)

lemma shape_h_u:
  "shape0 (h_u g) = 3 * length (dips_position g)" "shape1 (h_u g) = 3 * length (dips_position g)"
  by (simp_all add: h_u_def tile_cols_def coord_differences_def n_dimensions_def Let_def)

lemma cov_gradients_Some:
  "cov_gradients g =
     Some \<lparr>shape0 = length_of_CG g, shape1 = length_of_CG g,
           elems = (\<lambda>i j. cov_gradients_term (c_o_T g) (a_T g) (elems (h_u g) i j)
                     (elems (h_u g) j i) (elems (perpendicularity_matrix g) i j)
                     (sed_entry (dips_position_tiled g ! i) (dips_position_tiled g ! j)) +
                   (if i = j then 1 else 0) * nugget_effect_grad_T g)\<rparr>"
  by (simp add: cov_gradients_def Let_def same_shape_def shape_h_u transpose_matrix_def
      squared_euclidean_distances_def length_dips_position_tiled add_eye_def elemwise_def
      length_of_CG_def)

lemma tiled_example:
  "dips_position_tiled example_graph =
     [(0, 0, 1), (3, 0, 1), (0, 0, 1), (3, 0, 1), (0, 0, 1), (3, 0, 1)]"
  by (simp add: dips_position_tiled_def example_graph_def tile_rows_def n_dimensions_def eval_nat_numeral)

lemma cov_surface_points_term_far: "a \<le> d \<Longrightarrow> cov_surface_points_term a d = 0"
  by (simp add: cov_surface_points_term_def)

lemma cov_gradients_term_far: "a \<le> d \<Longrightarrow> cov_gradients_term c_o a hu hv p d = 0"
  by (simp add: cov_gradients_term_def)

text \<open>
  Claim C10. Every entry of the matrix that \<^verbatim>\<open>squared_euclidean_distances\<close> returns is at
  least \<open>1e-6\<close>, the square root of the clamp \<open>1e-12\<close>; for coincident points it is
  \<open>1e-6\<close> and not 0. Hence the test \<^verbatim>\<open>T.eq(sed_dips_dips, 0)\<close> of \<^verbatim>\<open>cov_gradients\<close> never
  holds: the entry is always computed by the other branch of the \<^verbatim>\<open>T.switch\<close>.
\<close>

theorem squared_euclidean_distances_clamped:
  assumes "i < length x_1" and "j < length x_2"
  shows "1 / 10 ^ 6 \<le> elems (squared_euclidean_distances x_1 x_2) i j \<and>
         (x_1 ! i = x_2 ! j \<longrightarrow> elems (squared_euclidean_distances x_1 x_2) i j = 1 / 10 ^ 6) \<and>
         elems (squared_euclidean_distances x_1 x_2) i j \<noteq> 0 \<and>
         cov_gradients_term c_o a hu hv p (elems (squared_euclidean_distances x_1 x_2) i j) =
           (hu * hv / (elems (squared_euclidean_distances x_1 x_2) i j) ^ 2) *
             ((of_bool (elems (squared_euclidean_distances x_1 x_2) i j < a) *
                 (- c_o * first_derivative a (elems (squared_euclidean_distances x_1 x_2) i j))) +
              of_bool (elems (squared_euclidean_distances x_1 x_2) i j < a) *
                 second_derivative c_o a (elems (squared_euclidean_distances x_1 x_2) i j)) -
           (p * of_bool (elems (squared_euclidean_distances x_1 x_2) i j < a) * c_o *
              first_derivative a (elems (squared_euclidean_distances x_1 x_2) i j))"
proof -
  have e: "elems (squared_euclidean_distances x_1 x_2) i j = sed_entry (x_1 ! i) (x_2 ! j)"
    by (simp add: squared_euclidean_distances_def)
  have pos: "0 < sed_entry (x_1 ! i) (x_2 ! j)"
    by (rule sed_entry_pos)
  show ?thesis
    unfolding e using pos sed_entry_ge [of "x_1 ! i" "x_2 ! j"]
    by (auto simp: sed_entry_same cov_gradients_term_def)
qed

theorem squared_euclidean_distances_clamped_witness:
  "(0::nat) < length [(0, 0, 0) :: point] \<and>
   elems (squared_euclidean_distances [(0, 0, 0)] [(0, 0, 0)]) 0 0 = 1 / 10 ^ 6 \<and>
   elems (squared_euclidean_distances [(0, 0, 0)] [(0, 0, 0)]) 0 0 \<noteq> 0"
  using squared_euclidean_distances_clamped [of 0 "[(0, 0, 0)]" 0 "[(0, 0, 0)]" 1 1 0 0 1]
  by simp

lemma compact_support_surface:
  assumes "a \<le> euclidean_distance (x_1 ! i) (x_2 ! j)"
  shows "cov_surface_points_term a (elems (squared_euclidean_distances x_1 x_2) i j) = 0"
  using assms
  by (simp add: squared_euclidean_distances_def sed_entry_euclidean cov_surface_points_term_far)

lemma compact_support_gradients:
  assumes "cov_gradients g = Some C_G" and "i \<noteq> j"
    and "a_T g \<le> euclidean_distance (dips_position_tiled g ! i) (dips_position_tiled g ! j)"
  shows "elems C_G i j = 0"
proof -
  have "a_T g \<le> sed_entry (dips_position_tiled g ! i) (dips_position_tiled g ! j)"
    using assms(3) by (simp add: sed_entry_euclidean)
  then show ?thesis
    using assms(1,2) by (auto simp: cov_gradients_Some cov_gradients_term_far)
qed

text \<open>
  Claim C2. For two points at a distance of at least the range \<open>a\<close>, the distance the code
  computes is at least \<open>a\<close> too and the term of \<^verbatim>\<open>cov_surface_points\<close> for the pair is
  exactly 0; and an entry of \<^verbatim>\<open>cov_gradients\<close> off the diagonal (no nugget) is exactly 0
  when its two dips are at a distance of at least \<open>a_T\<close>.
\<close>

theorem compact_support:
  "(i < length x_1 \<and> j < length x_2 \<and> a \<le> euclidean_distance (x_1 ! i) (x_2 ! j) \<longrightarrow>
      a \<le> elems (squared_euclidean_distances x_1 x_2) i j \<and>
      cov_surface_points_term a (elems (squared_euclidean_distances x_1 x_2) i j) = 0) \<and>
   (cov_gradients g = Some C_G \<and> k < length_of_CG g \<and> l < length_of_CG g \<and> k \<noteq> l \<and>
    a_T g \<le> euclidean_distance (dips_position_tiled g ! k) (dips_position_tiled g ! l) \<longrightarrow>
      elems C_G k l = 0)"
  using compact_support_surface [of a x_1 i x_2 j] compact_support_gradients [of g C_G k l]
  by (auto simp: squared_euclidean_distances_def sed_entry_euclidean)

theorem compact_support_witness:
  "a_T example_graph \<le> euclidean_distance (dips_position_tiled example_graph ! 0) (dips_position_tiled example_graph ! 1) \<and>
   (\<exists>C_G. cov_gradients example_graph = Some C_G \<and> elems C_G 0 1 = 0) \<and>
   cov_surface_points_term 1 (elems (squared_euclidean_distances [(0, 0, 1)] [(3, 0, 1)]) 0 0) = 0"
proof -
  have d: "1 \<le> euclidean_distance (0, 0, 1) (3, 0, 1)"
    unfolding euclidean_distance_def by (rule real_le_rsqrt) simp
  have a: "a_T example_graph = 1"
    by (simp add: example_graph_def)
  obtain C_G where C: "cov_gradients example_graph = Some C_G"
    by (simp add: cov_gradients_Some)
  have n: "length_of_CG example_graph = 6"
    by (simp add: length_of_CG_def tiled_example)
  show ?thesis
    using compact_support [of 0 "[(0, 0, 1)]" 0 "[(3, 0, 1)]" 1 example_graph C_G 0 1] d C
    by (simp add: a n tiled_example)
qed

lemma cont_cut:
  fixes f :: "real \<Rightarrow> real"
  assumes "isCont f a" "f a = 0"
  shows "isCont (\<lambda>d. of_bool (d < a) * f d) a"
proof -
  have "continuous (at_left a) f"
    using assms(1) continuous_at_split by blast
  moreover have "((\<lambda>_. 0::real) \<longlongrightarrow> f a) (at_right a)"
    by (simp add: assms(2))
  ultimately have "isCont (\<lambda>x. if x \<le> a then f x else 0) a"
    by (rule isCont_If_ge)
  moreover have "(\<lambda>d. of_bool (d < a) * f d) = (\<lambda>x. if x \<le> a then f x else 0)"
    using assms(2) by (auto simp: fun_eq_iff)
  ultimately show ?thesis by simp
qed

lemma spline_at_range: "a \<noteq> 0 \<Longrightarrow> spline a a = 0"
  by (simp add: spline_def)

lemma first_derivative_at_range: "a \<noteq> 0 \<Longrightarrow> first_derivative a a = 0"
  by (simp add: first_derivative_def power_eq_if field_simps)

lemma first_derivative_scaled:
  "a \<noteq> 0 \<Longrightarrow> first_derivative a d =
     (- 14 + 105 / 4 * (d / a) - 35 / 2 * (d / a) ^ 3 + 21 / 4 * (d / a) ^ 5) / a ^ 2"
  by (simp add: first_derivative_def power_eq_if field_simps)

lemma spline_deriv:
  "a \<noteq> 0 \<Longrightarrow> (spline a has_real_derivative (d * first_derivative a d)) (at d)"
  unfolding spline_def first_derivative_def
  by (auto intro!: derivative_eq_intros simp: field_simps power_eq_if)

lemma isCont_spline: "a \<noteq> 0 \<Longrightarrow> isCont (spline a) d"
  unfolding spline_def by (intro continuous_intros) simp_all

lemma isCont_first_derivative: "a \<noteq> 0 \<Longrightarrow> isCont (\<lambda>d. d * first_derivative a d) d"
  unfolding first_derivative_def by (intro continuous_intros) simp_all

text \<open>
  Claim C8. The polynomial of the interface covariance is 0 at \<open>d = a\<close>, and so is the
  first-derivative factor of the gradient kernels, which is the polynomial
  \<open>-14 + 105/4 u - 35/2 u\<^sup>3 + 21/4 u\<^sup>5\<close> in \<open>u = d / a\<close> divided by \<open>a\<^sup>2\<close>, and which
  times \<open>d\<close> is the derivative of the covariance polynomial. So the compactly supported
  covariance and its derivative are continuous at \<open>d = a\<close>, where the indicator
  \<^verbatim>\<open>(d < a)\<close> switches off.
\<close>

theorem spline_vanishes_at_range:
  assumes "0 < a"
  shows "spline a a = 0 \<and> first_derivative a a = 0 \<and>
         first_derivative a d =
           (- 14 + 105 / 4 * (d / a) - 35 / 2 * (d / a) ^ 3 + 21 / 4 * (d / a) ^ 5) / a ^ 2 \<and>
         (spline a has_real_derivative (d * first_derivative a d)) (at d) \<and>
         isCont (cov_surface_points_term a) a \<and>
         isCont (\<lambda>d. of_bool (d < a) * (d * first_derivative a d)) a"
proof -
  have a: "a \<noteq> 0" using assms by simp
  have c1: "isCont (cov_surface_points_term a) a"
    unfolding cov_surface_points_term_def
    by (rule cont_cut [OF isCont_spline [OF a] spline_at_range [OF a]])
  have c2: "isCont (\<lambda>d. of_bool (d < a) * (d * first_derivative a d)) a"
    by (rule cont_cut [OF isCont_first_derivative [OF a]]) (simp add: first_derivative_at_range [OF a])
  show ?thesis
    using spline_at_range [OF a] first_derivative_at_range [OF a] first_derivative_scaled [OF a]
      spline_deriv [OF a] c1 c2 by simp
qed

theorem spline_vanishes_at_range_witness:
  "(0::real) < 2 \<and> spline 2 2 = 0 \<and> first_derivative 2 2 = 0 \<and>
   (spline 2 has_real_derivative (1 * first_derivative 2 1)) (at 1) \<and>
   isCont (cov_surface_points_term 2) 2"
  using spline_vanishes_at_range [of 2 1] by simp


section \<open>The reference/rest split\<close>

lemma ref_positions_offsets:
  assumes "ss \<noteq> []" and "list_all (\<lambda>s. s \<noteq> []) ss"
  shows "cumsum_from acc (0 # map (\<lambda>n. n + 1) (butlast (map (\<lambda>s. length s - 1) ss))) = offsets acc ss"
  using assms
proof (induction ss arbitrary: acc)
  case Nil
  then show ?case by simp
next
  case (Cons s ss)
  show ?case
  proof (cases "ss = []")
    case True
    then show ?thesis by simp
  next
    case False
    have s: "Suc (acc + (length s - Suc 0)) = acc + length s"
      using Cons.prems(2) by (cases s) simp_all
    have "cumsum_from (acc + length s) (0 # map (\<lambda>n. n + 1) (butlast (map (\<lambda>s. length s - 1) ss)))
            = offsets (acc + length s) ss"
      using Cons.IH [OF False] Cons.prems(2) by simp
    then show ?thesis
      using False by (simp add: s)
  qed
qed

lemma offsets_in_range:
  "list_all (\<lambda>s. s \<noteq> []) ss \<Longrightarrow>
     list_all (\<lambda>i. i < acc + length (concat ss)) (offsets acc ss)"
proof (induction ss arbitrary: acc)
  case Nil
  then show ?case by simp
next
  case (Cons s ss)
  have "list_all (\<lambda>i. i < acc + length s + length (concat ss)) (offsets (acc + length s) ss)"
    using Cons.IH [of "acc + length s"] Cons.prems by simp
  then show ?case
    using Cons.prems by (simp add: add.assoc)
qed

lemma map_nth_offsets:
  "list_all (\<lambda>s. s \<noteq> []) ss \<Longrightarrow>
     map (nth (pre @ concat ss)) (offsets (length pre) ss) = map hd ss"
proof (induction ss arbitrary: pre)
  case Nil
  then show ?case by simp
next
  case (Cons s ss)
  have "map (nth ((pre @ s) @ concat ss)) (offsets (length (pre @ s)) ss) = map hd ss"
    using Cons.IH [of "pre @ s"] Cons.prems by simp
  moreover have "(pre @ s @ concat ss) ! length pre = hd s"
    using Cons.prems by (cases s) simp_all
  ultimately show ?case by simp
qed

lemma fold_update_offsets:
  "list_all (\<lambda>s. s \<noteq> []) ss \<Longrightarrow>
     fold (\<lambda>i ys. ys[i := 0]) (offsets (length pre) ss)
       (pre @ replicate (length (concat ss)) (1::int)) = pre @ rest_mask_of ss"
proof (induction ss arbitrary: pre)
  case Nil
  then show ?case by (simp add: rest_mask_of_def)
next
  case (Cons s ss)
  obtain x xs where s: "s = x # xs"
    using Cons.prems by (cases s) simp_all
  have up: "(pre @ replicate (length (concat (s # ss))) (1::int))[length pre := 0]
             = (pre @ 0 # replicate (length xs) 1) @ replicate (length (concat ss)) 1"
    by (simp add: s list_update_append replicate_add)
  have "fold (\<lambda>i ys. ys[i := 0]) (offsets (length (pre @ 0 # replicate (length xs) (1::int))) ss)
          ((pre @ 0 # replicate (length xs) 1) @ replicate (length (concat ss)) 1)
        = (pre @ 0 # replicate (length xs) 1) @ rest_mask_of ss"
    using Cons.IH [of "pre @ 0 # replicate (length xs) 1"] Cons.prems by simp
  then show ?case
    using up by (simp add: s rest_mask_of_def)
qed

lemma map_nth_filter_zip:
  assumes "length xs = length m" and "length p = length pm"
  shows "map (nth (p @ xs)) (filter (\<lambda>i. (pm @ m) ! i \<noteq> (0::int)) [length p..<length p + length m])
           = map fst (filter (\<lambda>(x, v). v \<noteq> 0) (zip xs m))"
  using assms
proof (induction xs m arbitrary: p pm rule: list_induct2)
  case Nil
  then show ?case by simp
next
  case (Cons x xs v m)
  have ih: "map (nth (p @ x # xs)) (filter (\<lambda>i. (pm @ v # m) ! i \<noteq> 0)
            [Suc (length p)..<Suc (length p + length m)])
          = map fst (filter (\<lambda>(x, v). v \<noteq> 0) (zip xs m))"
    using Cons.IH [of "p @ [x]" "pm @ [v]"] Cons.prems by simp
  have upt: "[length p..<length p + length (v # m)]
               = length p # [Suc (length p)..<Suc (length p + length m)]"
    by (subst upt_rec) simp
  have hd1: "(pm @ v # m) ! length p = v" and hd2: "(p @ x # xs) ! length p = x"
    using Cons.prems by (simp_all add: nth_append)
  show ?case
    unfolding upt by (simp only: filter.simps hd1 hd2 ih list.map zip_Cons_Cons split: if_splits) simp
qed

lemma map_nth_nonzero:
  assumes "length xs = length m"
  shows "map (nth xs) (nonzero m) = map fst (filter (\<lambda>(x, v). v \<noteq> 0) (zip xs m))"
  using map_nth_filter_zip [OF assms, of "[]" "[]"] by (simp add: nonzero_def)

lemma length_rest_mask_of: "list_all (\<lambda>s. s \<noteq> []) ss \<Longrightarrow> length (rest_mask_of ss) = length (concat ss)"
  by (induction ss) (auto simp: rest_mask_of_def)

lemma filter_zip_rest_mask:
  "list_all (\<lambda>s. s \<noteq> []) ss \<Longrightarrow>
     map fst (filter (\<lambda>(x, v). v \<noteq> 0) (zip (concat ss) (rest_mask_of ss))) = concat (map tl ss)"
proof (induction ss)
  case Nil
  then show ?case by (simp add: rest_mask_of_def)
next
  case (Cons s ss)
  obtain x xs where s: "s = x # xs"
    using Cons.prems by (cases s) simp_all
  have one: "map fst (filter (\<lambda>(x, v). v \<noteq> 0) (zip xs (replicate (length xs) (1::int)))) = xs"
    by (induction xs) simp_all
  have "rest_mask_of (s # ss) = (0 # replicate (length xs) 1) @ rest_mask_of ss"
    by (simp add: rest_mask_of_def s)
  then show ?case
    using Cons one by (simp add: s)
qed

lemma nonzero_in_range: "list_all (\<lambda>i. i < length m) (nonzero m)"
  by (simp add: nonzero_def list_all_iff)

lemma repeat_rows_firsts:
  "repeat_rows (map hd ss) (map (\<lambda>s. length s - 1) ss)
     = Some (concat (map (\<lambda>s. replicate (length s - 1) (hd s)) ss))"
proof -
  have "map2 (\<lambda>x n. replicate n x) (map hd ss) (map (\<lambda>s. length s - 1) ss)
          = map (\<lambda>s. replicate (length s - 1) (hd s)) ss"
    by (induction ss) simp_all
  then show ?thesis by (simp add: repeat_rows_def)
qed

lemma set_rest_ref_matrix_split:
  assumes "ss \<noteq> []" and "list_all (\<lambda>s. s \<noteq> []) ss"
  shows "set_rest_ref_matrix (concat ss) (map (\<lambda>s. length s - 1) ss) =
           Some (concat (map (\<lambda>s. replicate (length s - 1) (hd s)) ss), concat (map tl ss),
                 rest_mask_of ss, nonzero (rest_mask_of ss))"
proof -
  let ?pos = "cumsum (0 # map (\<lambda>n. n + 1) (butlast (map (\<lambda>s. length s - 1) ss)))"
  have pos: "?pos = offsets 0 ss"
    unfolding cumsum_def by (rule ref_positions_offsets [OF assms])
  have rng: "list_all (\<lambda>i. i < length (concat ss)) (offsets 0 ss)"
    using offsets_in_range [OF assms(2), of 0] by simp
  have firsts: "take_indices (concat ss) (offsets 0 ss) = Some (map hd ss)"
    using rng map_nth_offsets [OF assms(2), of "[]"] by (simp add: take_indices_def)
  have msk: "set_indices (replicate (length (concat ss)) (1::int)) (offsets 0 ss) 0 = Some (rest_mask_of ss)"
    using rng fold_update_offsets [OF assms(2), of "[]"] by (simp add: set_indices_def)
  have rest: "take_indices (concat ss) (nonzero (rest_mask_of ss)) = Some (concat (map tl ss))"
    using nonzero_in_range [of "rest_mask_of ss"] length_rest_mask_of [OF assms(2)]
      map_nth_nonzero [of "concat ss" "rest_mask_of ss"] filter_zip_rest_mask [OF assms(2)]
    by (simp add: take_indices_def)
  show ?thesis
    unfolding set_rest_ref_matrix_def
    by (simp only: Let_def pos firsts msk rest repeat_rows_firsts bind.bind_lunit)
qed

lemma length_le_concat: "list_all (\<lambda>s. s \<noteq> []) ss \<Longrightarrow> length ss \<le> length (concat ss)"
proof (induction ss)
  case Nil
  then show ?case by simp
next
  case (Cons s ss)
  then show ?case by (cases s) simp_all
qed

lemma length_concat_tl:
  "list_all (\<lambda>s. s \<noteq> []) ss \<Longrightarrow> length (concat (map tl ss)) = length (concat ss) - length ss"
proof (induction ss)
  case Nil
  then show ?case by simp
next
  case (Cons s ss)
  have "length ss \<le> length (concat ss)"
    using Cons.prems by (simp add: length_le_concat)
  then show ?case
    using Cons by (cases s) simp_all
qed

lemma length_concat_replicate_firsts:
  "length (concat (map (\<lambda>s. replicate (length s - 1) (hd s)) ss)) = length (concat (map tl ss))"
  by (induction ss) simp_all


text \<open>
  Claim C5. For a series of \<open>k \<ge> 1\<close> surfaces, each with at least one point after its
  first, and the table of these counts, \<^verbatim>\<open>set_rest_ref_matrix\<close> returns as rest points
  all points but the first of every surface, so (number of points) \<open>- k\<close> of them, and as
  reference points the first point of every surface repeated once for every rest point
  of that surface.
\<close>

theorem rest_ref_split:
  assumes "ss \<noteq> []" and "list_all (\<lambda>s. 2 \<le> length s) ss"
  shows "set_rest_ref_matrix (concat ss) (map (\<lambda>s. length s - 1) ss) =
           Some (concat (map (\<lambda>s. replicate (length s - 1) (hd s)) ss), concat (map tl ss),
                 rest_mask_of ss, nonzero (rest_mask_of ss)) \<and>
         length (concat (map tl ss)) = length (concat ss) - length ss \<and>
         length (concat (map (\<lambda>s. replicate (length s - 1) (hd s)) ss)) = length (concat (map tl ss))"
proof -
  have ne: "list_all (\<lambda>s. s \<noteq> []) ss"
    using assms(2) by (induction ss) auto
  show ?thesis
    using set_rest_ref_matrix_split [OF assms(1) ne] length_concat_tl [OF ne]
      length_concat_replicate_firsts [of ss] by simp
qed

theorem rest_ref_split_witness:
  "set_rest_ref_matrix [(0, 0, 0), (1, 0, 0), (0, 0, 1), (1, 0, 1), (2, 0, 1)] [1, 2] =
     Some ([(0, 0, 0), (0, 0, 1), (0, 0, 1)], [(1, 0, 0), (1, 0, 1), (2, 0, 1)],
           [0, 1, 0, 1, 1], [1, 3, 4])"
  using rest_ref_split [of "[[(0, 0, 0), (1, 0, 0)], [(0, 0, 1), (1, 0, 1), (2, 0, 1)]]"]
  by (simp add: rest_mask_of_def nonzero_def eval_nat_numeral)

text \<open>
  Claim C6 says that the split fails when a surface contributes fewer than two points.
  \<^verbatim>\<open>set_rest_ref_matrix\<close> has no such check: for a first surface of one point (count 0)
  and a second one of three points it returns a split.
\<close>

theorem single_point_surface_counterexample:
  "set_rest_ref_matrix [(0, 0, 0), (0, 0, 1), (1, 0, 1), (2, 0, 1)] [0, 2] =
     Some ([(0, 0, 1), (0, 0, 1)], [(1, 0, 1), (2, 0, 1)], [0, 0, 1, 1], [2, 3])"
  by (simp add: set_rest_ref_matrix_def cumsum_def take_indices_def set_indices_def repeat_rows_def
      nonzero_def eval_nat_numeral)

text \<open>
  Claim C6, amended. When a surface of the series has exactly one point, and the table
  of counts matches the points, \<^verbatim>\<open>set_rest_ref_matrix\<close> raises nothing: it returns the
  split, in which that surface has no rest point and no reference row.
\<close>

theorem rest_ref_split_single_point_surface:
  assumes "list_all (\<lambda>s. s \<noteq> []) ss" and "s \<in> set ss" and "length s = 1"
  shows "set_rest_ref_matrix (concat ss) (map (\<lambda>s. length s - 1) ss) =
           Some (concat (map (\<lambda>s. replicate (length s - 1) (hd s)) ss), concat (map tl ss),
                 rest_mask_of ss, nonzero (rest_mask_of ss)) \<and>
         replicate (length s - 1) (hd s) = [] \<and> tl s = []"
proof -
  have "ss \<noteq> []"
    using assms(2) by auto
  moreover have "tl s = []"
    using assms(3) by (cases s) simp_all
  ultimately show ?thesis
    using set_rest_ref_matrix_split [OF _ assms(1)] assms(3) by simp
qed

theorem rest_ref_split_single_point_surface_witness:
  "set_rest_ref_matrix [(0, 0, 0), (0, 0, 1), (1, 0, 1), (2, 0, 1)] [0, 2] \<noteq> None \<and>
   tl [(0, 0, 0) :: point] = []"
  using rest_ref_split_single_point_surface
    [of "[[(0, 0, 0)], [(0, 0, 1), (1, 0, 1), (2, 0, 1)]]" "[(0, 0, 0)]"]
  by (simp add: eval_nat_numeral)

section \<open>Evaluation of the scalar field\<close>

lemma shape_hu_points:
  "shape0 (hu_points g ps) = 3 * length (dips_position g)" "shape1 (hu_points g ps) = length ps"
  by (simp_all add: hu_points_def transpose_matrix_def coord_differences_def Let_def)

lemma length_sum_axis0 [simp]: "length (sum_axis0 A) = shape1 A"
  by (simp add: sum_axis0_def)

lemma length_slice: "length (slice a b xs) = min b (length xs) - a"
  by (auto simp: slice_def)

lemma contribution_gradient_interface_Some:
  assumes "shape1 W = length gv" and "length_of_CG g \<le> shape0 W"
  shows "\<exists>v. contribution_gradient_interface g gv W = Some v \<and> length v = length gv"
  using assms
  by (simp add: contribution_gradient_interface_def elemwise_def same_shape_def shape_hu_points
      squared_euclidean_distances_def length_dips_position_tiled slice_rows_def length_of_CG_def)

lemma contribution_interface_Some:
  assumes "shape1 W = length gv" and "length_of_CG g + length_of_CGI g \<le> shape0 W"
    and "length (ref_layer_points g) = length (rest_layer_points g)"
  shows "\<exists>v. contribution_interface g gv W = Some v \<and> length v = length gv"
  using assms
  by (simp add: contribution_interface_def elemwise_def same_shape_def map_matrix_def
      squared_euclidean_distances_def slice_rows_def length_of_CGI_def Let_def)

lemma contribution_universal_drift_Some:
  assumes "shape1 W = length gv"
    and "length_of_CG g + length_of_CGI g + length_of_U_I g \<le> shape0 W"
    and "n_universal_eq_T_op g \<le> 9"
  shows "\<exists>v. contribution_universal_drift g gv W = Some v \<and> length v = length gv"
  using assms
  by (simp add: contribution_universal_drift_def elemwise_def same_shape_def
      slice_rows_def length_of_U_I_def Let_def)

lemma contribution_faults_Some:
  assumes "shape1 W = shape1 (fault_matrix g)"
    and "shape0 W = length_of_C g" and "length_of_faults g \<le> b"
  shows "\<exists>v. contribution_faults g W 0 b = Some v \<and> length v = shape1 W"
  using assms
  by (simp add: contribution_faults_def elemwise_def same_shape_def
      slice_rows_def length_of_C_def length_of_faults_def Let_def)

lemma contribution_faults_None:
  assumes "shape1 W \<noteq> shape1 (fault_matrix g)"
  shows "contribution_faults g W a b = None"
  using assms
  by (simp add: contribution_faults_def elemwise_def same_shape_def slice_rows_def Let_def)




lemma slice_all: "slice 0 (length xs) xs = xs"
  by (simp add: slice_def)

lemma slice_cols_all: "slice_cols 0 (shape1 A) A = A"
  by (simp add: slice_cols_def)

lemma unchunked_Some:
  assumes "consistent_evaluation g gv W" and "length Z = length gv"
    and "length_of_faults g \<le> length gv"
  shows "\<exists>Z'. scalar_field_loop g 0 (length gv) Z gv W = Some Z' \<and> length Z' = length gv"
proof -
  have W: "slice_cols 0 (length gv) W = W"
    using assms(1) slice_cols_all [of W] by (simp add: consistent_evaluation_def)
  have L: "length_of_CG g \<le> shape0 W" "length_of_CG g + length_of_CGI g \<le> shape0 W"
      "length_of_CG g + length_of_CGI g + length_of_U_I g \<le> shape0 W"
    using assms(1) by (simp_all add: consistent_evaluation_def length_of_C_def)
  obtain v1 where v1: "contribution_gradient_interface g gv W = Some v1" "length v1 = length gv"
    using contribution_gradient_interface_Some [of W gv g] assms(1) L
    by (auto simp: consistent_evaluation_def)
  obtain v2 where v2: "contribution_interface g gv W = Some v2" "length v2 = length gv"
    using contribution_interface_Some [of W gv g] assms(1) L
    by (auto simp: consistent_evaluation_def)
  obtain v3 where v3: "contribution_universal_drift g gv W = Some v3" "length v3 = length gv"
    using contribution_universal_drift_Some [of W gv g] assms(1) L
    by (auto simp: consistent_evaluation_def)
  obtain v4 where v4: "contribution_faults g W 0 (length gv) = Some v4" "length v4 = length gv"
    using contribution_faults_Some [of W g "length gv"] assms(1,3)
    by (auto simp: consistent_evaluation_def)
  show ?thesis
    using v1 v2 v3 v4 assms(2)
    by (simp add: scalar_field_loop_def W slice_all add_vec_def set_slice_def)
qed

lemma chunk_None:
  assumes "consistent_evaluation g gv W" and "min b (length gv) - min a (length gv) \<noteq> length gv"
  shows "scalar_field_loop g a b Z gv W = None"
proof -
  have "shape1 (slice_cols a b W) \<noteq> shape1 (fault_matrix g)"
    using assms by (simp add: consistent_evaluation_def slice_cols_def)
  then have "contribution_faults g (slice_cols a b W) a b = None"
    by (rule contribution_faults_None)
  then show ?thesis
    by (simp add: scalar_field_loop_def split: bind_splits)
qed

lemma example_fault_consistent:
  "consistent_evaluation example_fault_graph (x_to_interpolate example_fault_graph example_grid)
     (extend_dual_kriging [1, 1, 1, 1, 1, 1, 1, 1, 1, 1, 1] 4)"
  by (simp add: consistent_evaluation_def example_fault_graph_def example_graph_def example_grid_def
      x_to_interpolate_def extend_dual_kriging_def length_of_C_def length_of_CG_def length_of_CGI_def
      length_of_U_I_def length_of_faults_def length_dips_position_tiled)

text \<open>
  Claim C3 says that the evaluation in chunks gives the vector of the evaluation in one
  piece. \<^verbatim>\<open>contribution_faults\<close> slices the fault matrix with \<^verbatim>\<open>[a:b]\<close> along its first axis,
  the faults, where \<^verbatim>\<open>grid_val[a:b]\<close> and \<^verbatim>\<open>weights[:, a:b]\<close> slice the points. The product
  with the weights of the chunk then has operands of different shapes and raises, so
  every evaluation in more than one chunk fails (\<open>chunk_None\<close>). Here four evaluation
  points are cut into two chunks of two: the chunked evaluation has no value where the
  evaluation in one piece has one.
\<close>

theorem chunked_evaluation_fails:
  "looping_grid example_fault_graph [0, 2, 4] [0, 0, 0, 0]
     (x_to_interpolate example_fault_graph example_grid)
     (extend_dual_kriging [1, 1, 1, 1, 1, 1, 1, 1, 1, 1, 1] 4) = None \<and>
   looping_grid example_fault_graph [0, 4] [0, 0, 0, 0]
     (x_to_interpolate example_fault_graph example_grid)
     (extend_dual_kriging [1, 1, 1, 1, 1, 1, 1, 1, 1, 1, 1] 4) \<noteq> None"
proof -
  let ?gv = "x_to_interpolate example_fault_graph example_grid"
  have n: "length ?gv = 4"
    by (simp add: x_to_interpolate_def example_fault_graph_def example_graph_def example_grid_def)
  have lf: "length_of_faults example_fault_graph = 1"
    by (simp add: length_of_faults_def example_fault_graph_def)
  have "scalar_field_loop example_fault_graph 0 2 [0, 0, 0, 0] ?gv
          (extend_dual_kriging [1, 1, 1, 1, 1, 1, 1, 1, 1, 1, 1] 4) = None"
    by (rule chunk_None [OF example_fault_consistent]) (simp add: n)
  moreover have "\<exists>Z'. scalar_field_loop example_fault_graph 0 (length ?gv) [0, 0, 0, 0] ?gv
          (extend_dual_kriging [1, 1, 1, 1, 1, 1, 1, 1, 1, 1, 1] 4) = Some Z' \<and> length Z' = length ?gv"
    by (rule unchunked_Some [OF example_fault_consistent]) (simp_all add: n lf)
  ultimately show ?thesis
    by (auto simp: n)
qed

















section \<open>Block export\<close>

lemma max_vec_Max: "Z \<noteq> [] \<Longrightarrow> max_vec Z = Some (Max (set Z))"
  by (cases Z) (simp_all add: Max.set_eq_fold [symmetric])

lemma min_vec_Min: "Z \<noteq> [] \<Longrightarrow> min_vec Z = Some (Min (set Z))"
  by (cases Z) (simp_all add: Min.set_eq_fold [symmetric])

lemma scalar_field_iter_thresholds:
  "scalar_field_iter (Max (set Z)) (Min (set Z)) sfsp = thresholds Z sfsp"
  by (simp add: scalar_field_iter_def thresholds_def Let_def)

lemma mul_slope_Some:
  assumes "slope_fits l v"
  shows "\<exists>e. mul_slope s l v = Some e \<and> length e = length v \<and>
             (\<forall>j<length v. e ! j = s (slope_at l j) * v ! j)"
  using assms by (cases l) (simp_all add: slope_fits_def slope_at_def)

lemma compare_Some:
  assumes "si + 1 < shape1 n" and "si < shape1 d" and "shape0 d = shape0 n" and "slope_fits l Z"
  shows "\<exists>M. compare a b si Z l n d = Some M \<and> shape0 M = shape0 n \<and> shape1 M = length Z \<and>
           (\<forall>i j. j < length Z \<longrightarrow>
              elems M i j = indicator (slope_at l j) (elems n i si) (elems n i (si + 1))
                              (elems d i si) a b (Z ! j))"
proof -
  have f: "slope_fits l (map (\<lambda>z. z - a) Z)" "slope_fits l (map (\<lambda>z. z - b) Z)"
    using assms(4) by (simp_all add: slope_fits_def split: slope.splits)
  obtain e0 where e0: "mul_slope uminus l (map (\<lambda>z. z - a) Z) = Some e0" "length e0 = length Z"
      "\<forall>j<length Z. e0 ! j = - slope_at l j * (Z ! j - a)"
    using mul_slope_Some [OF f(1), of uminus] by auto
  obtain e1 where e1: "mul_slope (\<lambda>l. l) l (map (\<lambda>z. z - b) Z) = Some e1" "length e1 = length Z"
      "\<forall>j<length Z. e1 ! j = slope_at l j * (Z ! j - b)"
    using mul_slope_Some [OF f(2), of "\<lambda>l. l"] by auto
  have s: "min si (shape1 n) = si" "min (Suc si) (shape1 n) = Suc si"
      "min (Suc (Suc si)) (shape1 n) = Suc (Suc si)" "min si (shape1 d) = si"
      "min (Suc si) (shape1 d) = Suc si"
    using assms(1,2) by simp_all
  show ?thesis
    using e0 e1 assms(3)
    by (simp add: compare_def Let_def elemwise_def same_shape_def sigmoid_term_def
        reshape_column_def slice_cols_def map_matrix_def add_column_def s indicator_def)
qed

lemma those_map_Some:
  assumes "\<forall>x\<in>set xs. \<exists>y. f x = Some y \<and> P x y"
  shows "\<exists>ys. those (map f xs) = Some ys \<and> length ys = length xs \<and> (\<forall>t<length xs. P (xs ! t) (ys ! t))"
  using assms
proof (induction xs)
  case Nil
  then show ?case by simp
next
  case (Cons x xs)
  then obtain ys where ys: "those (map f xs) = Some ys" "length ys = length xs"
      "\<forall>t<length xs. P (xs ! t) (ys ! t)"
    by auto
  from Cons.prems obtain y where y: "f x = Some y" "P x y"
    by auto
  have "\<forall>t<length (x # xs). P ((x # xs) ! t) ((y # ys) ! t)"
    using ys(3) y(2) by (auto simp: nth_Cons split: nat.splits)
  then show ?case
    using ys(1,2) y(1) by auto
qed

lemma compare_steps:
  "zip (zip sfi (tl sfi)) (arange2 n) =
     map (\<lambda>t. ((sfi ! t, sfi ! (t + 1)), 2 * t)) [0..<min (length sfi - 1) ((n + 1) div 2)]"
  by (rule nth_equalityI) (auto simp: arange2_def nth_tl)

lemma looping_compare_Some:
  assumes "shape1 d = shape1 n" and "shape0 d = shape0 n" and "even (shape1 n)" and "slope_fits l Z"
  shows "\<exists>Ms. looping_compare sfi Z l n d = Some Ms \<and>
           length Ms = min (length sfi - 1) (shape1 n div 2) \<and>
           (\<forall>t<length Ms. shape0 (Ms ! t) = shape0 n \<and> shape1 (Ms ! t) = length Z \<and>
              (\<forall>i j. j < length Z \<longrightarrow>
                 elems (Ms ! t) i j =
                   indicator (slope_at l j) (elems n i (2 * t)) (elems n i (2 * t + 1))
                     (elems d i (2 * t)) (sfi ! t) (sfi ! (t + 1)) (Z ! j)))"
proof -
  let ?k = "min (length sfi - 1) (shape1 n div 2)"
  let ?f = "\<lambda>t. compare (sfi ! t) (sfi ! (t + 1)) (2 * t) Z l n d"
  let ?P = "\<lambda>t M. shape0 M = shape0 n \<and> shape1 M = length Z \<and>
              (\<forall>i j. j < length Z \<longrightarrow>
                 elems M i j =
                   indicator (slope_at l j) (elems n i (2 * t)) (elems n i (2 * t + 1))
                     (elems d i (2 * t)) (sfi ! t) (sfi ! (t + 1)) (Z ! j))"
  have half: "Suc (shape1 n) div 2 = shape1 n div 2"
    using assms(3) by presburger
  have "\<forall>t\<in>set [0..<?k]. \<exists>M. ?f t = Some M \<and> ?P t M"
  proof
    fix t assume "t \<in> set [0..<?k]"
    then have "t < shape1 n div 2" by simp
    then have "2 * t + 1 < shape1 n" using assms(3) by presburger
    then show "\<exists>M. ?f t = Some M \<and> ?P t M"
      using compare_Some [of "2 * t" n d l Z "sfi ! t" "sfi ! (t + 1)"] assms(1,2,4) by simp
  qed
  then obtain Ms where Ms: "those (map ?f [0..<?k]) = Some Ms" "length Ms = length [0..<?k]"
      "\<forall>t<length [0..<?k]. ?P ([0..<?k] ! t) (Ms ! t)"
    using those_map_Some [of "[0..<?k]" ?f ?P] by blast
  have "looping_compare sfi Z l n d = those (map ?f [0..<?k])"
    by (simp add: looping_compare_def compare_steps half comp_def)
  then show ?thesis
    using Ms by auto
qed

lemma sum_stack_Some:
  assumes "Ms \<noteq> []"
  shows "\<exists>B. sum_stack Ms = Some B \<and> shape0 B = shape0 (Ms ! 0) \<and> shape1 B = shape1 (Ms ! 0) \<and>
           (\<forall>i j. elems B i j = sum_list (map (\<lambda>t. elems (Ms ! t) i j) [0..<length Ms]))"
proof -
  obtain A As where Ms: "Ms = A # As"
    using assms by (cases Ms) auto
  have "\<And>i j. map (\<lambda>M. elems M i j) Ms = map (\<lambda>t. elems (Ms ! t) i j) [0..<length Ms]"
    by (rule nth_equalityI) simp_all
  then show ?thesis
    unfolding Ms by (simp del: upt_Suc)
qed

lemma segmentation_sum:
  assumes "shape1 d = shape1 n" and "shape0 d = shape0 n" and "even (shape1 n)"
    and "slope_fits l Z" and "length sfi = m + 2" and "m + 1 \<le> shape1 n div 2"
  shows "\<exists>B. Option.bind (looping_compare sfi Z l n d) sum_stack = Some B \<and>
           shape0 B = shape0 n \<and> shape1 B = length Z \<and>
           (\<forall>i j. j < length Z \<longrightarrow>
              elems B i j =
                sum_list (map (\<lambda>t. indicator (slope_at l j) (elems n i (2 * t)) (elems n i (2 * t + 1))
                                      (elems d i (2 * t)) (sfi ! t) (sfi ! (t + 1)) (Z ! j))
                            [0..<m + 1]))"
proof -
  obtain Ms where Ms: "looping_compare sfi Z l n d = Some Ms"
      "length Ms = min (length sfi - 1) (shape1 n div 2)"
      "\<forall>t<length Ms. shape0 (Ms ! t) = shape0 n \<and> shape1 (Ms ! t) = length Z \<and>
              (\<forall>i j. j < length Z \<longrightarrow>
                 elems (Ms ! t) i j =
                   indicator (slope_at l j) (elems n i (2 * t)) (elems n i (2 * t + 1))
                     (elems d i (2 * t)) (sfi ! t) (sfi ! (t + 1)) (Z ! j))"
    using looping_compare_Some [OF assms(1-4)] by blast
  have len: "length Ms = m + 1"
    using Ms(2) assms(5,6) by simp
  then have ne: "Ms \<noteq> []" by auto
  obtain B where B: "sum_stack Ms = Some B" "shape0 B = shape0 (Ms ! 0)" "shape1 B = shape1 (Ms ! 0)"
      "\<forall>i j. elems B i j = sum_list (map (\<lambda>t. elems (Ms ! t) i j) [0..<length Ms])"
    using sum_stack_Some [OF ne] by blast
  have eq: "sum_list (map (\<lambda>t. elems (Ms ! t) i j) [0..<length Ms]) =
          sum_list (map (\<lambda>t. indicator (slope_at l j) (elems n i (2 * t)) (elems n i (2 * t + 1))
                     (elems d i (2 * t)) (sfi ! t) (sfi ! (t + 1)) (Z ! j)) [0..<m + 1])"
    if "j < length Z" for i j
    unfolding len
    by (rule arg_cong [where f = sum_list], rule map_cong) (use Ms(3) len that in auto)
  have "shape0 B = shape0 n" "shape1 B = length Z"
    using B(2,3) Ms(3) len by simp_all
  then show ?thesis
    using Ms(1) B(1,4) eq by simp
qed

lemma formation_units:
  assumes "0 < shape1 V"
  shows "\<exists>n d. set_column (repeat_columns V) 0 (- 1) \<bind> (\<lambda>n1. set_column n1 (- 1) (- 1)) = Some n \<and>
           copy_column n 0 1 = Some d \<and>
           shape0 n = shape0 V \<and> shape1 n = shape1 V * 2 \<and> shape0 d = shape0 V \<and>
           shape1 d = shape1 V * 2 \<and>
           (\<forall>i t. t < shape1 V \<longrightarrow>
              elems n i (2 * t) = unit_low V t i \<and> elems n i (2 * t + 1) = unit_high V t i \<and>
              elems d i (2 * t) = unit_drift V t i)"
proof -
  have odd: "\<And>t. int (Suc (2 * t)) = int (shape1 V) * 2 - 1 \<longleftrightarrow> t + 1 = shape1 V"
    by presburger
  have one: "int (shape1 V) * 2 - 1 = 1 \<longleftrightarrow> shape1 V = 1"
    by presburger
  show ?thesis
    using assms
    by (auto simp: set_column_def copy_column_def column_index_def repeat_columns_def
        unit_low_def unit_high_def unit_drift_def nat_diff_distrib nat_mult_distrib odd one)
qed

lemma length_thresholds: "length (thresholds Z sfsp) = length sfsp + 2"
  by (simp add: thresholds_def)

text \<open>
  Claim C4. For a field that is not constant and an identifier for every pair of
  thresholds, \<^verbatim>\<open>export_formation_block\<close> returns, for every row \<open>i\<close> of the values and every
  evaluation point \<open>j\<close>, the sum over the adjacent pairs \<open>(a, b)\<close> of the threshold list
  \<open>[max(Z) + pad, field values at the surface points, min(Z) - pad]\<close> of the indicator
  \<open>-id_low/(1+exp(-l(Z-a))) - id_high/(1+exp(l(Z-b))) + drift\<close>, with \<open>pad\<close> 1% of the range
  and \<open>l\<close> the slope divided by the range.
\<close>

theorem formation_block_indicators:
  assumes "Z_x \<noteq> []" and "Min (set Z_x) < Max (set Z_x)" and "length sfsp + 1 \<le> shape1 V"
  shows "\<exists>B. export_formation_block Z_x sfsp V slope = Some B \<and>
           shape0 B = shape0 V \<and> shape1 B = length Z_x \<and>
           (\<forall>i j. j < length Z_x \<longrightarrow>
              elems B i j =
                sum_list (map (\<lambda>t. indicator (slope / (Max (set Z_x) - Min (set Z_x)))
                                      (unit_low V t i) (unit_high V t i) (unit_drift V t i)
                                      (thresholds Z_x sfsp ! t) (thresholds Z_x sfsp ! (t + 1)) (Z_x ! j))
                            [0..<length sfsp + 1]))"
proof -
  let ?l = "Scalar (slope / (Max (set Z_x) - Min (set Z_x)))"
  have V: "0 < shape1 V"
    using assms(3) by simp
  obtain n d where n: "set_column (repeat_columns V) 0 (- 1) \<bind> (\<lambda>n1. set_column n1 (- 1) (- 1)) = Some n"
    and d: "copy_column n 0 1 = Some d"
    and sh: "shape0 n = shape0 V" "shape1 n = shape1 V * 2" "shape0 d = shape0 V" "shape1 d = shape1 V * 2"
    and un: "\<forall>i t. t < shape1 V \<longrightarrow>
              elems n i (2 * t) = unit_low V t i \<and> elems n i (2 * t + 1) = unit_high V t i \<and>
              elems d i (2 * t) = unit_drift V t i"
    using formation_units [OF V] by blast
  have fit: "slope_fits ?l Z_x"
    by (simp add: slope_fits_def)
  obtain B where B: "Option.bind (looping_compare (thresholds Z_x sfsp) Z_x ?l n d) sum_stack = Some B"
      "shape0 B = shape0 n" "shape1 B = length Z_x"
      "\<forall>i j. j < length Z_x \<longrightarrow>
              elems B i j =
                sum_list (map (\<lambda>t. indicator (slope_at ?l j) (elems n i (2 * t)) (elems n i (2 * t + 1))
                                      (elems d i (2 * t)) (thresholds Z_x sfsp ! t)
                                      (thresholds Z_x sfsp ! (t + 1)) (Z_x ! j))
                            [0..<length sfsp + 1])"
    using segmentation_sum [of d n ?l Z_x "thresholds Z_x sfsp" "length sfsp"] sh fit assms(3)
    by (auto simp: length_thresholds)
  have ex: "export_formation_block Z_x sfsp V slope = Some B"
    using n d B(1)
    by (auto simp: export_formation_block_def max_vec_Max [OF assms(1)] min_vec_Min [OF assms(1)]
        scalar_field_iter_thresholds Let_def split: bind_splits)
  have "elems B i j =
          sum_list (map (\<lambda>t. indicator (slope / (Max (set Z_x) - Min (set Z_x)))
                                (unit_low V t i) (unit_high V t i) (unit_drift V t i)
                                (thresholds Z_x sfsp ! t) (thresholds Z_x sfsp ! (t + 1)) (Z_x ! j))
                      [0..<length sfsp + 1])"
    if "j < length Z_x" for i j
  proof -
    have "map (\<lambda>t. indicator (slope_at ?l j) (elems n i (2 * t)) (elems n i (2 * t + 1))
                                      (elems d i (2 * t)) (thresholds Z_x sfsp ! t)
                                      (thresholds Z_x sfsp ! (t + 1)) (Z_x ! j))
                            [0..<length sfsp + 1] =
          map (\<lambda>t. indicator (slope / (Max (set Z_x) - Min (set Z_x)))
                                (unit_low V t i) (unit_high V t i) (unit_drift V t i)
                                (thresholds Z_x sfsp ! t) (thresholds Z_x sfsp ! (t + 1)) (Z_x ! j))
                      [0..<length sfsp + 1]"
      by (rule map_cong) (use un assms(3) in \<open>auto simp: slope_at_def\<close>)
    moreover from B(4) that have "elems B i j =
        sum_list (map (\<lambda>t. indicator (slope_at ?l j) (elems n i (2 * t)) (elems n i (2 * t + 1))
                                      (elems d i (2 * t)) (thresholds Z_x sfsp ! t)
                                      (thresholds Z_x sfsp ! (t + 1)) (Z_x ! j))
                            [0..<length sfsp + 1])"
      by blast
    ultimately show ?thesis
      by (simp only:)
  qed
  then show ?thesis
    using ex B(2,3) sh by simp
qed

theorem formation_block_indicators_witness:
  "example_field \<noteq> [] \<and> Min (set example_field) < Max (set example_field) \<and>
   length [3 / 2 :: real] + 1 \<le> shape1 example_values \<and>
   (\<exists>B. compute_formation_block example_field [3 / 2] example_values = Some B \<and>
        shape0 B = 1 \<and> shape1 B = 4 \<and>
        elems B 0 1 =
          sum_list (map (\<lambda>t. indicator (5000 / (Max (set example_field) - Min (set example_field)))
                                (unit_low example_values t 0) (unit_high example_values t 0)
                                (unit_drift example_values t 0)
                                (thresholds example_field [3 / 2] ! t)
                                (thresholds example_field [3 / 2] ! (t + 1)) (example_field ! 1))
                      [0..<length [3 / 2 :: real] + 1]))"
proof -
  have h1: "example_field \<noteq> []"
    by (simp add: example_field_def)
  have h2: "Min (set example_field) < Max (set example_field)"
    by (simp add: example_field_def)
  have h3: "length [3 / 2 :: real] + 1 \<le> shape1 example_values"
    by (simp add: example_values_def)
  have l: "length example_field = 4" "shape0 example_values = 1"
    by (simp_all add: example_field_def example_values_def)
  from formation_block_indicators [OF h1 h2 h3, of 5000] obtain B
    where "export_formation_block example_field [3 / 2] example_values 5000 = Some B"
      "shape0 B = shape0 example_values" "shape1 B = length example_field"
      "\<forall>i j. j < length example_field \<longrightarrow>
              elems B i j =
                sum_list (map (\<lambda>t. indicator (5000 / (Max (set example_field) - Min (set example_field)))
                                (unit_low example_values t i) (unit_high example_values t i)
                                (unit_drift example_values t i)
                                (thresholds example_field [3 / 2] ! t)
                                (thresholds example_field [3 / 2] ! (t + 1)) (example_field ! j))
                            [0..<length [3 / 2 :: real] + 1])"
    by blast
  then show ?thesis
    using h1 h2 h3 l by (auto simp: compute_formation_block_def simp del: upt_Suc)
qed

lemma fault_units:
  assumes "0 < shape1 V" and "0 < shape0 V"
  shows "\<exists>n d. first_row V \<bind> (\<lambda>row0. set_column (repeat_columns row0) 1 (- 1)) \<bind>
               (\<lambda>n1. set_column n1 (- 1) (- 1)) = Some n \<and>
           copy_column n 0 1 = Some d \<and>
           shape0 n = 1 \<and> shape1 n = shape1 V * 2 \<and> shape0 d = 1 \<and> shape1 d = shape1 V * 2 \<and>
           (\<forall>i t. t < shape1 V \<longrightarrow>
              elems n i (2 * t) = fault_low V t \<and> elems n i (2 * t + 1) = fault_high V t \<and>
              elems d i (2 * t) = fault_drift V t)"
proof -
  have odd: "\<And>t. int (Suc (2 * t)) = int (shape1 V) * 2 - 1 \<longleftrightarrow> t + 1 = shape1 V"
    by presburger
  have even: "\<And>t. int (2 * t) \<noteq> int (shape1 V) * 2 - 1" "\<And>t. 2 * t \<noteq> Suc 0"
    by presburger+
  show ?thesis
    using assms
    by (auto simp: first_row_def set_column_def copy_column_def column_index_def repeat_columns_def
        fault_low_def fault_high_def fault_drift_def nat_diff_distrib nat_mult_distrib odd even)
qed

lemma select_finite_faults_length:
  "select_finite_faults svd_V g n_series grid_val = Some sel \<Longrightarrow> length sel = length grid_val"
  by (auto simp: select_finite_faults_def Let_def split: bind_splits)

lemma select_example:
  "select_finite_faults (\<lambda>M. identity3) finite_fault_graph 0
     (x_to_interpolate finite_fault_graph fault_grid) = Some [True, False, True, True]"
  by (simp add: select_finite_faults_def finite_fault_graph_def example_graph_def fault_grid_def
      identity3_def x_to_interpolate_def py_index_def mean_points_def sub_point_def rotate_def
      scatter_matrix_def inside_ellipse_def Let_def power2_eq_square)

text \<open>
  A fault that is not finite (inflation 0) with two points on a line has a second radius
  of 0: no point is flagged, also not one that lies far off the line.
\<close>

lemma select_zero_radius:
  "select_finite_faults (\<lambda>M. identity3) example_graph 0 [(1 / 2, 1000, 0), (1 / 2, 0, 0)] =
     Some [False, False]"
  by (simp add: select_finite_faults_def example_graph_def identity3_def py_index_def
      mean_points_def sub_point_def rotate_def scatter_matrix_def inside_ellipse_def Let_def)

text \<open>
  Claim C7. In the block of a fault series (for a field that is not constant), a point
  \<open>x\<close> that the ellipse test of \<^verbatim>\<open>select_finite_faults\<close> flags is segmented with the slope
  \<open>5000 / (max(Z) - min(Z))\<close> and a point \<open>y\<close> that it does not flag with the slope
  \<open>50 / (max(Z) - min(Z))\<close>, which is strictly smaller. The test flags a point only when
  both radii of the ellipse are not 0.
\<close>

theorem fault_block_slopes:
  assumes "select_finite_faults svd_V g n_series (x_to_interpolate g grid) = Some sel"
    and "length Z_x = length (x_to_interpolate g grid)"
    and "Min (set Z_x) < Max (set Z_x)"
    and "0 < shape0 V" and "length sfsp + 1 \<le> shape1 V"
    and "x < length Z_x" and "y < length Z_x" and "sel ! x" and "\<not> sel ! y"
  shows "\<exists>B. compute_fault_block svd_V g Z_x sfsp V n_series grid = Some B \<and>
           elems B 0 x =
             sum_list (map (\<lambda>t. indicator (5000 / (Max (set Z_x) - Min (set Z_x)))
                                   (fault_low V t) (fault_high V t) (fault_drift V t)
                                   (thresholds Z_x sfsp ! t) (thresholds Z_x sfsp ! (t + 1)) (Z_x ! x))
                         [0..<length sfsp + 1]) \<and>
           elems B 0 y =
             sum_list (map (\<lambda>t. indicator (50 / (Max (set Z_x) - Min (set Z_x)))
                                   (fault_low V t) (fault_high V t) (fault_drift V t)
                                   (thresholds Z_x sfsp ! t) (thresholds Z_x sfsp ! (t + 1)) (Z_x ! y))
                         [0..<length sfsp + 1]) \<and>
           50 / (Max (set Z_x) - Min (set Z_x)) < 5000 / (Max (set Z_x) - Min (set Z_x))"
proof -
  let ?r = "Max (set Z_x) - Min (set Z_x)"
  let ?l = "Vector (fault_slope sel (Max (set Z_x)) (Min (set Z_x)) 50 5000)"
  have ne: "Z_x \<noteq> []"
    using assms(6) by auto
  have V: "0 < shape1 V"
    using assms(5) by simp
  have ls: "length sel = length Z_x"
    using select_finite_faults_length [OF assms(1)] assms(2) by simp
  obtain n d where n: "first_row V \<bind> (\<lambda>row0. set_column (repeat_columns row0) 1 (- 1)) \<bind>
               (\<lambda>n1. set_column n1 (- 1) (- 1)) = Some n"
    and d: "copy_column n 0 1 = Some d"
    and sh: "shape0 n = 1" "shape1 n = shape1 V * 2" "shape0 d = 1" "shape1 d = shape1 V * 2"
    and un: "\<forall>i t. t < shape1 V \<longrightarrow>
              elems n i (2 * t) = fault_low V t \<and> elems n i (2 * t + 1) = fault_high V t \<and>
              elems d i (2 * t) = fault_drift V t"
    using fault_units [OF V assms(4)] by blast
  have fit: "slope_fits ?l Z_x"
    by (simp add: slope_fits_def fault_slope_def ls)
  obtain B where B: "Option.bind (looping_compare (thresholds Z_x sfsp) Z_x ?l n d) sum_stack = Some B"
      "\<forall>i j. j < length Z_x \<longrightarrow>
              elems B i j =
                sum_list (map (\<lambda>t. indicator (slope_at ?l j) (elems n i (2 * t)) (elems n i (2 * t + 1))
                                      (elems d i (2 * t)) (thresholds Z_x sfsp ! t)
                                      (thresholds Z_x sfsp ! (t + 1)) (Z_x ! j))
                            [0..<length sfsp + 1])"
    using segmentation_sum [of d n ?l Z_x "thresholds Z_x sfsp" "length sfsp"] sh fit assms(5)
    by (auto simp: length_thresholds)
  have ex: "compute_fault_block svd_V g Z_x sfsp V n_series grid = Some B"
    using n d B(1) assms(1)
    by (auto simp: compute_fault_block_def export_fault_block_def max_vec_Max [OF ne]
        min_vec_Min [OF ne] scalar_field_iter_thresholds Let_def split: bind_splits)
  have entry: "elems B 0 j =
          sum_list (map (\<lambda>t. indicator ((if sel ! j then 5000 else 50) / ?r)
                                (fault_low V t) (fault_high V t) (fault_drift V t)
                                (thresholds Z_x sfsp ! t) (thresholds Z_x sfsp ! (t + 1)) (Z_x ! j))
                      [0..<length sfsp + 1])"
    if "j < length Z_x" for j
  proof -
    have "slope_at ?l j = (if sel ! j then 5000 else 50) / ?r"
      using that ls by (simp add: slope_at_def fault_slope_def)
    then have "map (\<lambda>t. indicator (slope_at ?l j) (elems n 0 (2 * t)) (elems n 0 (2 * t + 1))
                                      (elems d 0 (2 * t)) (thresholds Z_x sfsp ! t)
                                      (thresholds Z_x sfsp ! (t + 1)) (Z_x ! j))
                            [0..<length sfsp + 1] =
          map (\<lambda>t. indicator ((if sel ! j then 5000 else 50) / ?r)
                                (fault_low V t) (fault_high V t) (fault_drift V t)
                                (thresholds Z_x sfsp ! t) (thresholds Z_x sfsp ! (t + 1)) (Z_x ! j))
                      [0..<length sfsp + 1]"
      by (intro map_cong) (use un assms(5) in auto)
    moreover from B(2) that have "elems B 0 j =
        sum_list (map (\<lambda>t. indicator (slope_at ?l j) (elems n 0 (2 * t)) (elems n 0 (2 * t + 1))
                                      (elems d 0 (2 * t)) (thresholds Z_x sfsp ! t)
                                      (thresholds Z_x sfsp ! (t + 1)) (Z_x ! j))
                            [0..<length sfsp + 1])"
      by blast
    ultimately show ?thesis
      by (simp only:)
  qed
  have "50 / ?r < 5000 / ?r"
    using assms(3) by (simp add: divide_strict_right_mono)
  then show ?thesis
    using ex entry [OF assms(6)] entry [OF assms(7)] assms(8,9) by (simp del: upt_Suc)
qed

theorem fault_block_slopes_witness:
  "select_finite_faults (\<lambda>M. identity3) finite_fault_graph 0
     (x_to_interpolate finite_fault_graph fault_grid) = Some [True, False, True, True] \<and>
   Min (set example_field) < Max (set example_field) \<and>
   (\<exists>B. compute_fault_block (\<lambda>M. identity3) finite_fault_graph example_field [3 / 2]
          example_values 0 fault_grid = Some B \<and>
        elems B 0 0 =
          sum_list (map (\<lambda>t. indicator (5000 / (Max (set example_field) - Min (set example_field)))
                                (fault_low example_values t) (fault_high example_values t)
                                (fault_drift example_values t)
                                (thresholds example_field [3 / 2] ! t)
                                (thresholds example_field [3 / 2] ! (t + 1)) (example_field ! 0))
                      [0..<length [3 / 2 :: real] + 1]) \<and>
        elems B 0 1 =
          sum_list (map (\<lambda>t. indicator (50 / (Max (set example_field) - Min (set example_field)))
                                (fault_low example_values t) (fault_high example_values t)
                                (fault_drift example_values t)
                                (thresholds example_field [3 / 2] ! t)
                                (thresholds example_field [3 / 2] ! (t + 1)) (example_field ! 1))
                      [0..<length [3 / 2 :: real] + 1])) \<and>
   50 / (Max (set example_field) - Min (set example_field))
     < 5000 / (Max (set example_field) - Min (set example_field))"
proof -
  have h2: "length example_field = length (x_to_interpolate finite_fault_graph fault_grid)"
    by (simp add: example_field_def x_to_interpolate_def finite_fault_graph_def example_graph_def
        fault_grid_def)
  have h3: "Min (set example_field) < Max (set example_field)"
    by (simp add: example_field_def)
  have h4: "0 < shape0 example_values" and h5: "length [3 / 2 :: real] + 1 \<le> shape1 example_values"
    by (simp_all add: example_values_def)
  have h6: "0 < length example_field" and h7: "1 < length example_field"
    by (simp_all add: example_field_def)
  have h8: "[True, False, True, True] ! 0" and h9: "\<not> [True, False, True, True] ! 1"
    by simp_all
  show ?thesis
    using fault_block_slopes [OF select_example h2 h3 h4 h5 h6 h7 h8 h9] select_example h3
    by blast
qed

section \<open>The kriging matrix\<close>

lemma set_subtensor_Some:
  assumes "r0 \<le> r1" and "r1 \<le> shape0 A" and "c0 \<le> c1" and "c1 \<le> shape1 A"
    and "shape0 V = r1 - r0" and "shape1 V = c1 - c0"
  shows "set_subtensor A r0 r1 c0 c1 V =
           Some \<lparr>shape0 = shape0 A, shape1 = shape1 A,
                 elems = (\<lambda>i j. if r0 \<le> i \<and> i < r1 \<and> c0 \<le> j \<and> j < c1
                                  then elems V (i - r0) (j - c0) else elems A i j)\<rparr>"
proof -
  have m: "min r0 (shape0 A) = r0" "min r1 (shape0 A) = r1" "min c0 (shape1 A) = c0"
      "min c1 (shape1 A) = c1"
    using assms(1-4) by simp_all
  have "(\<lambda>i j. if r0 \<le> i \<and> i < r1 \<and> c0 \<le> j \<and> j < c1
                then elems V (if shape0 V = 1 then 0 else i - r0) (if shape1 V = 1 then 0 else j - c0)
                else elems A i j) =
        (\<lambda>i j. if r0 \<le> i \<and> i < r1 \<and> c0 \<le> j \<and> j < c1
                then elems V (i - r0) (j - c0) else elems A i j)"
    using assms(5,6) by (auto simp: fun_eq_iff intro!: arg_cong2 [where f = "elems V"])
  then show ?thesis
    using assms(5,6) by (simp add: set_subtensor_def m Let_def)
qed

lemma assemble_blocks:
  fixes CG CGI UI nf :: nat
  defines "L \<equiv> CG + CGI + UI + nf"
  assumes "shape0 C_G = CG" "shape1 C_G = CG" "shape0 C_I = CGI" "shape1 C_I = CGI"
    and "shape0 C_GI = CGI" "shape1 C_GI = CG" "shape0 U_I = CGI" "shape1 U_I = UI"
    and "shape0 U_G = CG" "shape1 U_G = UI" "shape0 F_I = nf" "shape1 F_I = CGI"
    and "shape0 F_G = nf" "shape1 F_G = CG"
  shows "\<exists>C. do {
           C \<leftarrow> set_subtensor (zeros L L) 0 CG 0 CG C_G;
           C \<leftarrow> set_subtensor C 0 CG CG (CG + CGI) (transpose_matrix C_GI);
           C \<leftarrow> set_subtensor C 0 CG (CG + CGI) (CG + CGI + UI) U_G;
           C \<leftarrow> set_subtensor C 0 CG (CG + CGI + UI) (shape1 C) (transpose_matrix F_G);
           C \<leftarrow> set_subtensor C CG (CG + CGI) 0 CG C_GI;
           C \<leftarrow> set_subtensor C CG (CG + CGI) CG (CG + CGI) C_I;
           C \<leftarrow> set_subtensor C CG (CG + CGI) (CG + CGI) (CG + CGI + UI) U_I;
           C \<leftarrow> set_subtensor C CG (CG + CGI) (CG + CGI + UI) (shape1 C) (transpose_matrix F_I);
           C \<leftarrow> set_subtensor C (CG + CGI) (CG + CGI + UI) 0 CG (transpose_matrix U_G);
           C \<leftarrow> set_subtensor C (CG + CGI) (CG + CGI + UI) CG (CG + CGI) (transpose_matrix U_I);
           C \<leftarrow> set_subtensor C (CG + CGI + UI) (shape0 C) 0 CG F_G;
           set_subtensor C (CG + CGI + UI) (shape0 C) CG (CG + CGI) F_I
         } = Some C \<and> shape0 C = L \<and> shape1 C = L \<and>
         (\<forall>i j. i < L \<longrightarrow> j < L \<longrightarrow>
            elems C i j = block_entry CG CGI UI C_G C_I C_GI U_I U_G F_I F_G i j)"
  using assms(2-)
  apply (simp add: set_subtensor_Some zeros_def transpose_matrix_def L_def)
  apply (auto simp: block_entry_def)
  done

lemma perpendicularity_sym:
  "elems (perpendicularity_matrix g) i j = elems (perpendicularity_matrix g) j i"
  by (auto simp: perpendicularity_matrix_def fill_subtensor_def map_matrix_def Let_def
      squared_euclidean_distances_def)

lemma cov_gradients_term_sym:
  "cov_gradients_term c_o a hu hv p d = cov_gradients_term c_o a hv hu p d"
  by (simp add: cov_gradients_term_def mult.commute)

lemma cov_gradients_sym:
  assumes "cov_gradients g = Some C_G"
  shows "shape0 C_G = length_of_CG g \<and> shape1 C_G = length_of_CG g \<and>
         (\<forall>i j. elems C_G i j = elems C_G j i)"
  using assms cov_gradients_term_sym [of "c_o_T g" "a_T g"]
  by (auto simp: cov_gradients_Some perpendicularity_sym sed_entry_sym)

lemma cov_surface_points_Some:
  assumes "length (ref_layer_points g) = length (rest_layer_points g)"
  shows "\<exists>C_I. cov_surface_points g = Some C_I \<and> shape0 C_I = length_of_CGI g \<and>
           shape1 C_I = length_of_CGI g \<and> (\<forall>i j. elems C_I i j = elems C_I j i)"
  using assms
  by (auto simp: cov_surface_points_def elemwise_def same_shape_def map_matrix_def add_eye_def
      squared_euclidean_distances_def length_of_CGI_def Let_def sed_entry_sym)

lemma cov_interface_gradients_Some:
  assumes "length (ref_layer_points g) = length (rest_layer_points g)"
  shows "\<exists>C_GI. cov_interface_gradients g = Some C_GI \<and> shape0 C_GI = length_of_CGI g \<and>
           shape1 C_GI = length_of_CG g"
  using assms
  by (simp add: cov_interface_gradients_def gradient_kernel_def elemwise_def same_shape_def
      shape_hu_points squared_euclidean_distances_def length_dips_position_tiled map_matrix_def
      transpose_matrix_def length_of_CGI_def length_of_CG_def)

lemma universal_matrix_Some:
  assumes "length (ref_layer_points g) = length (rest_layer_points g)" and "n_universal_eq_T_op g \<le> 9"
  shows "\<exists>U_I U_G. universal_matrix g = Some (U_I, U_G) \<and> shape0 U_I = length_of_CGI g \<and>
           shape1 U_I = length_of_U_I g \<and> shape0 U_G = length_of_CG g \<and>
           shape1 U_G = length_of_U_I g"
  using assms
  by (simp add: universal_matrix_def slice_cols_def U_G_full_def Let_def length_of_CGI_def
      length_of_U_I_def length_of_CG_def length_dips_position_tiled n_dimensions_def)

lemma faults_matrix_Some:
  assumes "same_shape (fault_drift_at_surface_points_ref g) (fault_drift_at_surface_points_rest g)"
  shows "\<exists>F_I F_G. faults_matrix g = Some (F_I, F_G) \<and>
           shape0 F_I = shape0 (fault_drift_at_surface_points_rest g) \<and>
           shape1 F_I = shape1 (fault_drift_at_surface_points_rest g) \<and>
           shape0 F_G = length_of_faults g \<and> shape1 F_G = length_of_CG g"
  using assms
  by (simp add: faults_matrix_def elemwise_def map_matrix_def zeros_def same_shape_def)

lemma block_entry_sym:
  assumes "\<forall>i j. elems C_G i j = elems C_G j i" and "\<forall>i j. elems C_I i j = elems C_I j i"
  shows "block_entry CG CGI UI C_G C_I C_GI U_I U_G F_I F_G i j =
         block_entry CG CGI UI C_G C_I C_GI U_I U_G F_I F_G j i"
  using assms by (simp add: block_entry_def)

text \<open>
  Claim C1. For an admissible series, \<^verbatim>\<open>covariance_matrix\<close> returns a square matrix of
  size \<^verbatim>\<open>length_of_C\<close> whose entries are the blocks of \<open>block_entry\<close>, where every
  off-diagonal block faces its transpose, and the matrix is symmetric, as are its
  gradient and interface covariance blocks.
\<close>

theorem covariance_matrix_symmetric:
  assumes "admissible_series g"
  shows "\<exists>C C_G C_I C_GI U_I U_G F_I F_G.
           covariance_matrix g = Some C \<and> cov_gradients g = Some C_G \<and>
           cov_surface_points g = Some C_I \<and> cov_interface_gradients g = Some C_GI \<and>
           universal_matrix g = Some (U_I, U_G) \<and> faults_matrix g = Some (F_I, F_G) \<and>
           shape0 C = length_of_C g \<and> shape1 C = length_of_C g \<and>
           (\<forall>i j. i < length_of_C g \<longrightarrow> j < length_of_C g \<longrightarrow>
              elems C i j =
                block_entry (length_of_CG g) (length_of_CGI g) (length_of_U_I g)
                  C_G C_I C_GI U_I U_G F_I F_G i j) \<and>
           symmetric_matrix C_G \<and> symmetric_matrix C_I \<and> symmetric_matrix C"
proof -
  have rf: "length (ref_layer_points g) = length (rest_layer_points g)"
    and u: "n_universal_eq_T_op g \<le> 9"
    and fd: "shape0 (fault_drift_at_surface_points_rest g) = length_of_faults g"
      "shape1 (fault_drift_at_surface_points_rest g) = length_of_CGI g"
      "same_shape (fault_drift_at_surface_points_ref g) (fault_drift_at_surface_points_rest g)"
    using assms by (simp_all add: admissible_series_def same_shape_def)
  obtain C_G where C_G: "cov_gradients g = Some C_G"
    by (simp add: cov_gradients_Some)
  note G = cov_gradients_sym [OF C_G]
  obtain C_I where C_I: "cov_surface_points g = Some C_I" "shape0 C_I = length_of_CGI g"
      "shape1 C_I = length_of_CGI g" "\<forall>i j. elems C_I i j = elems C_I j i"
    using cov_surface_points_Some [OF rf] by blast
  obtain C_GI where C_GI: "cov_interface_gradients g = Some C_GI" "shape0 C_GI = length_of_CGI g"
      "shape1 C_GI = length_of_CG g"
    using cov_interface_gradients_Some [OF rf] by blast
  obtain U_I U_G where U: "universal_matrix g = Some (U_I, U_G)" "shape0 U_I = length_of_CGI g"
      "shape1 U_I = length_of_U_I g" "shape0 U_G = length_of_CG g" "shape1 U_G = length_of_U_I g"
    using universal_matrix_Some [OF rf u] by blast
  obtain F_I F_G where F: "faults_matrix g = Some (F_I, F_G)" "shape0 F_I = length_of_faults g"
      "shape1 F_I = length_of_CGI g" "shape0 F_G = length_of_faults g" "shape1 F_G = length_of_CG g"
    using faults_matrix_Some [OF fd(3)] fd(1,2) by auto
  obtain C where C: "covariance_matrix g = Some C" "shape0 C = length_of_C g"
      "shape1 C = length_of_C g"
      "\<forall>i j. i < length_of_C g \<longrightarrow> j < length_of_C g \<longrightarrow>
              elems C i j =
                block_entry (length_of_CG g) (length_of_CGI g) (length_of_U_I g)
                  C_G C_I C_GI U_I U_G F_I F_G i j"
    using assemble_blocks [of C_G "length_of_CG g" C_I "length_of_CGI g" C_GI U_I
        "length_of_U_I g" U_G F_I "length_of_faults g" F_G] G C_I(2,3) C_GI(2,3) U(2-5) F(2-5)
    by (auto simp: covariance_matrix_def C_G C_I(1) C_GI(1) U(1) F(1) length_of_C_def Let_def)
  have "symmetric_matrix C"
    using C(2-4) block_entry_sym [of C_G C_I] G C_I(4) by (simp add: symmetric_matrix_def)
  moreover have "symmetric_matrix C_G" "symmetric_matrix C_I"
    using G C_I(2-4) by (simp_all add: symmetric_matrix_def)
  ultimately show ?thesis
    using C C_G C_I(1) C_GI(1) U(1) F(1) by blast
qed

theorem covariance_matrix_symmetric_witness:
  "admissible_series example_fault_graph \<and>
   (\<exists>C. covariance_matrix example_fault_graph = Some C \<and> shape0 C = 11 \<and> shape1 C = 11 \<and>
        symmetric_matrix C)"
proof -
  have a: "admissible_series example_fault_graph"
    by (simp add: admissible_series_def example_fault_graph_def example_graph_def
        length_of_faults_def length_of_CGI_def)
  have l: "length_of_C example_fault_graph = 11"
    by (simp add: length_of_C_def length_of_CG_def length_of_CGI_def length_of_U_I_def
        length_of_faults_def length_dips_position_tiled example_fault_graph_def example_graph_def)
  show ?thesis
    using covariance_matrix_symmetric [OF a] a l by auto
qed

end
